theory Spec2Isabelle
  imports Complex_Main "HOL-Library.AList" "HOL-Library.Sublist"
begin

section \<open>Floating-point numbers\<close>

text \<open>
  Python's \<^verbatim>\<open>float\<close> is the IEEE 754 binary64 format. A finite number is a sign
  (\<open>True\<close> for negative), a mantissa \<open>m\<close> and an exponent \<open>e\<close>, standing for
  \<open>m \<times> 2\<^sup>e\<close>; it is kept with an odd mantissa, and zero as mantissa 0 with
  exponent 0, so that equal numbers are equal terms (the two zeros differ in the sign).
\<close>

datatype float64 = Finite bool nat int | Infinity bool | NaN

fun strip_zeros :: "nat \<Rightarrow> int \<Rightarrow> nat \<times> int" where
  "strip_zeros m e = (if m \<noteq> 0 \<and> even m then strip_zeros (m div 2) (e + 1) else (m, e))"

declare strip_zeros.simps [simp del]

definition finite64 :: "bool \<Rightarrow> nat \<Rightarrow> int \<Rightarrow> float64" where
  "finite64 s m e =
     (if m = 0 then Finite s 0 0 else case strip_zeros m e of (m', e') \<Rightarrow> Finite s m' e')"

text \<open>The number of binary digits of \<open>n\<close>.\<close>

fun bit_length :: "nat \<Rightarrow> nat" where
  "bit_length n = (if n = 0 then 0 else Suc (bit_length (n div 2)))"

declare bit_length.simps [simp del]

text \<open>The integer nearest to \<open>a / b\<close>, the even one of two that are equally near.\<close>

definition round_half_even :: "nat \<Rightarrow> nat \<Rightarrow> nat" where
  "round_half_even a b =
     (let k = a div b; r = a mod b
      in if 2 * r < b then k else if b < 2 * r then k + 1 else if even k then k else k + 1)"

text \<open>The binary exponent of \<open>(num / den) \<times> 2\<^sup>e\<close>: the floor of its logarithm to base 2.\<close>

definition floor_log2 :: "nat \<Rightarrow> nat \<Rightarrow> int \<Rightarrow> int" where
  "floor_log2 num den e =
     (let c = int (bit_length num) - int (bit_length den)
      in (if den * 2 ^ nat c \<le> num * 2 ^ nat (- c) then c else c - 1) + e)"

text \<open>
  Rounding of the exact result \<open>(num / den) \<times> 2\<^sup>e\<close> with sign \<open>s\<close> to binary64, to
  nearest and ties to even: the result is a multiple of \<open>2\<^sup>q\<close>, where \<open>q\<close> leaves 53
  binary digits to the mantissa and is not below the exponent -1074 of the subnormal
  numbers. A result of \<open>2\<^sup>1\<^sup>0\<^sup>2\<^sup>4\<close> or more overflows to infinity; a result that rounds
  to nothing is a zero of the same sign.
\<close>

definition round64 :: "bool \<Rightarrow> nat \<Rightarrow> nat \<Rightarrow> int \<Rightarrow> float64" where
  "round64 s num den e =
     (if num = 0 then Finite s 0 0
      else let q = max (floor_log2 num den e - 52) (- 1074);
               n = round_half_even (num * 2 ^ nat (e - q)) (den * 2 ^ nat (q - e))
           in if 1024 < int (bit_length n) + q then Infinity s else finite64 s n q)"

text \<open>Division, for a divisor that is not zero (Python raises on a zero divisor).\<close>

fun float_div :: "float64 \<Rightarrow> float64 \<Rightarrow> float64" where
  "float_div NaN y = NaN"
| "float_div (Finite s a e) NaN = NaN"
| "float_div (Infinity s) NaN = NaN"
| "float_div (Infinity s) (Infinity t) = NaN"
| "float_div (Infinity s) (Finite t b g) = Infinity (s \<noteq> t)"
| "float_div (Finite s a e) (Infinity t) = Finite (s \<noteq> t) 0 0"
| "float_div (Finite s a e) (Finite t b g) = round64 (s \<noteq> t) a b (e - g)"

fun float_mul :: "float64 \<Rightarrow> float64 \<Rightarrow> float64" where
  "float_mul NaN y = NaN"
| "float_mul (Finite s a e) NaN = NaN"
| "float_mul (Infinity s) NaN = NaN"
| "float_mul (Infinity s) (Infinity t) = Infinity (s \<noteq> t)"
| "float_mul (Infinity s) (Finite t b g) = (if b = 0 then NaN else Infinity (s \<noteq> t))"
| "float_mul (Finite s a e) (Infinity t) = (if a = 0 then NaN else Infinity (s \<noteq> t))"
| "float_mul (Finite s a e) (Finite t b g) = round64 (s \<noteq> t) (a * b) 1 (e + g)"

text \<open>\<^verbatim>\<open>x > 0\<close> and \<^verbatim>\<open>x == 0\<close>; every comparison with NaN is false.\<close>

definition float_gt_zero :: "float64 \<Rightarrow> bool" where
  "float_gt_zero x =
     (case x of Finite s m e \<Rightarrow> \<not> s \<and> m \<noteq> 0 | Infinity s \<Rightarrow> \<not> s | NaN \<Rightarrow> False)"

definition float_is_zero :: "float64 \<Rightarrow> bool" where
  "float_is_zero x = (case x of Finite s m e \<Rightarrow> m = 0 | Infinity s \<Rightarrow> False | NaN \<Rightarrow> False)"

text \<open>
  The conversion of a Python integer in mixed arithmetic (the scripts convert 0 and 100
  only; an integer too large for a float raises in Python and is not met here).
\<close>

definition float_of_int :: "int \<Rightarrow> float64" where
  "float_of_int i = round64 (i < 0) (nat \<bar>i\<bar>) 1 0"

text \<open>The real number a finite float stands for.\<close>

definition float_value :: "float64 \<Rightarrow> real option" where
  "float_value x =
     (case x of
        Finite s m e \<Rightarrow> Some ((if s then - 1 else 1) * real m * 2 ^ nat e / 2 ^ nat (- e))
      | Infinity s \<Rightarrow> None
      | NaN \<Rightarrow> None)"

section \<open>Python values, dictionaries and exceptions\<close>

text \<open>
  The two scripts (\<^verbatim>\<open>dataset-generator.py\<close>, the static-config script, and
  \<^verbatim>\<open>azure/datasetgen.py\<close>, the environment-driven one) build dictionaries whose
  values are strings, integers, floats or \<^verbatim>\<open>None\<close>.
\<close>

datatype pyval = PNone | PStr string | PInt int | PFloat float64

text \<open>
  A dictionary is an association list in insertion order. Storing under a key that is
  already present replaces the value in place, as Python does.
\<close>

type_synonym pydict = "(string \<times> pyval) list"

definition dict_of :: "('k \<times> 'v) list \<Rightarrow> ('k \<times> 'v) list" where
  "dict_of items = fold (\<lambda>(k, v) d. AList.update k v d) items []"

definition py_get :: "('k \<times> 'v) list \<Rightarrow> 'k \<Rightarrow> 'v option" where
  "py_get d k = map_of d k"

text \<open>\<^verbatim>\<open>{**a, **b}\<close>: the entries of \<open>b\<close> are stored into \<open>a\<close> one by one.\<close>

definition dict_merge :: "('k \<times> 'v) list \<Rightarrow> ('k \<times> 'v) list \<Rightarrow> ('k \<times> 'v) list" where
  "dict_merge a b = fold (\<lambda>(k, v) d. AList.update k v d) b a"

text \<open>
  A raised exception: its class and its message (\<^verbatim>\<open>str(e)\<close>). An
  \<^verbatim>\<open>ApiException\<close> carries the HTTP status; \<^verbatim>\<open>RequestException\<close> stands for the
  whole \<^verbatim>\<open>requests.exceptions.RequestException\<close> family (HTTP, connection, timeout).
\<close>

datatype exc_class =
    ApiException int
  | RequestException
  | KeyError
  | TypeError
  | IndexError
  | ZeroDivisionError
  | OtherException

datatype error = Raised exc_class string

definition py_opt :: "string option \<Rightarrow> pyval" where
  "py_opt s = (case s of None \<Rightarrow> PNone | Some t \<Rightarrow> PStr t)"

text \<open>A string or \<^verbatim>\<open>None\<close> inside an f-string.\<close>

definition format_opt :: "string option \<Rightarrow> string" where
  "format_opt s = (case s of None \<Rightarrow> ''None'' | Some t \<Rightarrow> t)"

subsection \<open>Rendering numbers and durations\<close>

definition digit_char :: "nat \<Rightarrow> char" where
  "digit_char d = ''0123456789'' ! (d mod 10)"

fun str_nat :: "nat \<Rightarrow> string" where
  "str_nat n = (if n < 10 then [digit_char n] else str_nat (n div 10) @ [digit_char n])"

declare str_nat.simps [simp del]

definition str_int :: "int \<Rightarrow> string" where
  "str_int i = (if i < 0 then CHR ''-'' # str_nat (nat (- i)) else str_nat (nat i))"

text \<open>\<^verbatim>\<open>"%02d"\<close> and \<^verbatim>\<open>"%06d"\<close> on a non-negative number.\<close>

definition zero_pad :: "nat \<Rightarrow> string \<Rightarrow> string" where
  "zero_pad w s = replicate (w - length s) CHR ''0'' @ s"

text \<open>
  \<^verbatim>\<open>str(timedelta)\<close>, as CPython's \<^verbatim>\<open>timedelta.__str__\<close> writes it. The duration is
  given in microseconds; days, seconds and microseconds are normalised with floor
  division, so only the days can be negative.
\<close>

definition str_timedelta :: "int \<Rightarrow> string" where
  "str_timedelta us =
     (let days = us div 86400000000;
          seconds = (us mod 86400000000) div 1000000;
          microseconds = us mod 1000000;
          hh = seconds div 3600;
          mm = (seconds mod 3600) div 60;
          ss = seconds mod 60;
          s = str_int hh @ '':'' @ zero_pad 2 (str_int mm) @ '':'' @ zero_pad 2 (str_int ss);
          s1 = (if days \<noteq> 0
                then str_int days @ '' day'' @ (if \<bar>days\<bar> \<noteq> 1 then ''s'' else '''') @ '', '' @ s
                else s)
      in if microseconds \<noteq> 0 then s1 @ ''.'' @ zero_pad 6 (str_int microseconds) else s1)"

text \<open>\<^verbatim>\<open>s.split('.')[0]\<close>: the text before the first dot.\<close>

definition split_dot_first :: "string \<Rightarrow> string" where
  "split_dot_first s = takeWhile (\<lambda>c. c \<noteq> CHR ''.'') s"

definition format_event_age :: "int \<Rightarrow> int \<Rightarrow> string" where
  "format_event_age now ts = split_dot_first (str_timedelta (now - ts))"

section \<open>Exclusion list\<close>

definition EXCLUDE_POD_NAMES :: "string list" where
  "EXCLUDE_POD_NAMES =
     [''opensearch'', ''prometheus'', ''otelcol'', ''loadgenerator'',
      ''jaeger'', ''grafana'', ''featureflagservice'']"

text \<open>\<^verbatim>\<open>excluded in pod_name\<close> on strings is the contiguous-substring test.\<close>

definition should_exclude_pod :: "string \<Rightarrow> bool" where
  "should_exclude_pod pod_name = list_ex (\<lambda>excluded. sublist excluded pod_name) EXCLUDE_POD_NAMES"

section \<open>Memory usage percentage\<close>

text \<open>Python's \<^verbatim>\<open>/\<close> raises \<^verbatim>\<open>ZeroDivisionError\<close> on a zero divisor.\<close>

definition py_truediv :: "float64 \<Rightarrow> float64 \<Rightarrow> error + float64" where
  "py_truediv a b =
     (if float_is_zero b then Inl (Raised ZeroDivisionError ''float division by zero'')
      else Inr (float_div a b))"

text \<open>
  \<^verbatim>\<open>calculate_percentage(usage, limit)\<close> of the static-config script:
  \<^verbatim>\<open>(usage / limit) * 100 if limit > 0 else 'N/A'\<close>. The division is evaluated only
  in the first branch.
\<close>

definition calculate_percentage :: "float64 \<Rightarrow> float64 \<Rightarrow> error + pyval" where
  "calculate_percentage usage limit =
     (if float_gt_zero limit
      then (case py_truediv usage limit of
              Inl e \<Rightarrow> Inl e
            | Inr q \<Rightarrow> Inr (PFloat (float_mul q (float_of_int 100))))
      else Inr (PStr ''N/A''))"

text \<open>\<^verbatim>\<open>d.get(pod, 0)\<close> on a mapping of samples: the integer 0 when the key is absent.\<close>

definition get_or_zero :: "(string \<times> float64) list \<Rightarrow> string \<Rightarrow> float64" where
  "get_or_zero d pod = (case py_get d pod of None \<Rightarrow> float_of_int 0 | Some v \<Rightarrow> v)"

text \<open>The percentage as the row-emission loop of the static-config script computes it.\<close>

definition usage_percentage ::
  "(string \<times> float64) list \<Rightarrow> (string \<times> float64) list \<Rightarrow> string \<Rightarrow> error + pyval" where
  "usage_percentage memory_usage_data memory_limit_data pod =
     calculate_percentage (get_or_zero memory_usage_data pod) (get_or_zero memory_limit_data pod)"

text \<open>
  The same percentage in \<^verbatim>\<open>collect_pod_metrics\<close> of the environment-driven script,
  written inline there as a conditional expression.
\<close>

definition usage_percentage_azure ::
  "(string \<times> float64) list \<Rightarrow> (string \<times> float64) list \<Rightarrow> string \<Rightarrow> error + pyval" where
  "usage_percentage_azure memory_usage_data memory_limit_data pod =
     (if float_gt_zero (get_or_zero memory_limit_data pod)
      then (case py_truediv (get_or_zero memory_usage_data pod) (get_or_zero memory_limit_data pod) of
              Inl e \<Rightarrow> Inl e
            | Inr q \<Rightarrow> Inr (PFloat (float_mul q (float_of_int 100))))
      else Inr (PStr ''N/A''))"

section \<open>Cluster state API\<close>

text \<open>
  The records of the Kubernetes client, with the fields the scripts read. Optional
  fields are options (\<^verbatim>\<open>None\<close> in Python). Timestamps are timezone-aware datetimes,
  as the client deserialises them, counted in microseconds; such an object is always
  truthy, so \<^verbatim>\<open>if event.last_timestamp\<close> asks whether the field is present. The
  nested objects \<^verbatim>\<open>event.source\<close>, \<^verbatim>\<open>container.state\<close>, \<^verbatim>\<open>pod.status\<close> and
  \<^verbatim>\<open>pod.spec\<close> are always present in what the API server sends.
\<close>

record event =
  last_timestamp :: "int option"
  event_time :: "int option"
  first_timestamp :: "int option"
  e_type :: "string option"
  e_reason :: "string option"
  source_component :: "string option"
  e_message :: "string option"

record container_state_terminated =
  exit_code :: int
  terminated_reason :: "string option"

record container_state_waiting =
  waiting_reason :: "string option"

record container_state =
  waiting :: "container_state_waiting option"
  terminated :: "container_state_terminated option"

record container_status =
  restart_count :: int
  ready :: bool
  state :: container_state

record pod =
  phase :: "string option"
  status_reason :: "string option"
  container_statuses :: "container_status list option"
  init_container_statuses :: "container_status list option"
  spec_containers :: nat
  spec_node_name :: "string option"

text \<open>
  The client \<^verbatim>\<open>v1\<close>: each call either raises or returns. \<open>spec_containers\<close> above is
  \<^verbatim>\<open>len(pod.spec.containers)\<close>; \<open>list_namespaced_pod\<close> returns each pod's name and
  phase.
\<close>

record k8s =
  read_namespaced_pod :: "string \<Rightarrow> string \<Rightarrow> error + pod"
  list_namespaced_event :: "string \<Rightarrow> string \<Rightarrow> error + event list"
  list_event_for_all_namespaces :: "string \<Rightarrow> error + event list"
  read_namespaced_pod_log :: "string \<Rightarrow> string \<Rightarrow> error + string"
  list_namespaced_pod :: "string \<Rightarrow> error + (string \<times> string option) list"

section \<open>Workload state reader\<close>

text \<open>The six values \<^verbatim>\<open>get_pod_status\<close> returns.\<close>

record workload_state =
  pod_status :: pyval
  pod_reason :: pyval
  pod_restarts :: int
  ready_containers :: nat
  total_containers :: nat
  error_message :: pyval

text \<open>\<^verbatim>\<open>terminated.reason or terminated.exit_code\<close>: an empty reason is falsy too.\<close>

definition reason_or_exit_code :: "container_state_terminated \<Rightarrow> pyval" where
  "reason_or_exit_code t =
     (case terminated_reason t of
        None \<Rightarrow> PInt (exit_code t)
      | Some r \<Rightarrow> if r = [] then PInt (exit_code t) else PStr r)"

text \<open>The same value inside the f-string \<^verbatim>\<open>f"Init: {...}"\<close>.\<close>

definition init_reason :: "container_state_terminated \<Rightarrow> string" where
  "init_reason t =
     ''Init: '' @
     (case terminated_reason t of
        None \<Rightarrow> str_int (exit_code t)
      | Some r \<Rightarrow> if r = [] then str_int (exit_code t) else r)"

text \<open>
  The loop over the init containers: it adds each restart count and leaves at the first
  container that terminated with a nonzero exit code. It returns \<open>(restarts, reason)\<close>.
\<close>

fun init_loop :: "container_status list \<Rightarrow> int \<Rightarrow> pyval \<Rightarrow> int \<times> pyval" where
  "init_loop [] restarts reason = (restarts, reason)"
| "init_loop (container # rest) restarts reason =
     (case terminated (state container) of
        None \<Rightarrow> init_loop rest (restarts + restart_count container) reason
      | Some t \<Rightarrow>
          if exit_code t \<noteq> 0
          then (restarts + restart_count container, PStr (init_reason t))
          else init_loop rest (restarts + restart_count container) reason)"

text \<open>The gate in front of the regular containers.\<close>

definition init_containers_fine :: "container_status list option \<Rightarrow> bool" where
  "init_containers_fine init =
     (case init of
        None \<Rightarrow> True
      | Some cs \<Rightarrow>
          list_all (\<lambda>c. case terminated (state c) of None \<Rightarrow> False | Some t \<Rightarrow> exit_code t = 0) cs)"

text \<open>The loop over the regular containers: a later container overrides the reason.\<close>

fun container_loop :: "container_status list \<Rightarrow> int \<Rightarrow> pyval \<Rightarrow> int \<times> pyval" where
  "container_loop [] restarts reason = (restarts, reason)"
| "container_loop (container # rest) restarts reason =
     container_loop rest (restarts + restart_count container)
       (case waiting (state container) of
          Some w \<Rightarrow> py_opt (waiting_reason w)
        | None \<Rightarrow>
            (case terminated (state container) of
               Some t \<Rightarrow> reason_or_exit_code t
             | None \<Rightarrow> reason))"

definition or_empty :: "'a list option \<Rightarrow> 'a list" where
  "or_empty xs = (case xs of None \<Rightarrow> [] | Some ys \<Rightarrow> ys)"

text \<open>The body of the \<^verbatim>\<open>try\<close> of \<^verbatim>\<open>get_pod_status\<close> once the pod has been read.\<close>

definition pod_status_of :: "pod \<Rightarrow> workload_state" where
  "pod_status_of p =
     (let reason0 = (case status_reason p of None \<Rightarrow> py_opt (phase p) | Some r \<Rightarrow> PStr r);
          (restarts1, reason1) = init_loop (or_empty (init_container_statuses p)) 0 reason0;
          (restarts2, reason2) =
            (if init_containers_fine (init_container_statuses p)
             then container_loop (or_empty (container_statuses p)) restarts1 reason1
             else (restarts1, reason1))
      in \<lparr> pod_status = py_opt (phase p), pod_reason = reason2, pod_restarts = restarts2,
           ready_containers = length (filter ready (or_empty (container_statuses p))),
           total_containers = spec_containers p, error_message = PNone \<rparr>)"

definition failed_state :: "string \<Rightarrow> string \<Rightarrow> workload_state" where
  "failed_state st msg =
     \<lparr> pod_status = PStr st, pod_reason = PNone, pod_restarts = 0, ready_containers = 0,
       total_containers = 0, error_message = PStr msg \<rparr>"

text \<open>\<^verbatim>\<open>get_pod_status(pod_name, namespace)\<close> of the static-config script.\<close>

definition get_pod_status :: "k8s \<Rightarrow> string \<Rightarrow> string \<Rightarrow> workload_state" where
  "get_pod_status v1 pod_name namespace =
     (case read_namespaced_pod v1 pod_name namespace of
        Inr p \<Rightarrow> pod_status_of p
      | Inl (Raised (ApiException st) msg) \<Rightarrow>
          if st = 404 then failed_state ''NotFound'' (''Pod '' @ pod_name @ '' not found'')
          else failed_state ''Error'' msg
      | Inl (Raised _ msg) \<Rightarrow> failed_state ''Unknown'' msg)"

text \<open>
  \<^verbatim>\<open>get_pod_status(v1, pod_name, namespace)\<close> of the environment-driven script: the
  restart count is summed over \<^verbatim>\<open>container_statuses\<close> and the reason is the pod's own.
\<close>

definition pod_status_of_azure :: "pod \<Rightarrow> workload_state" where
  "pod_status_of_azure p =
     \<lparr> pod_status = py_opt (phase p),
       pod_reason = (case status_reason p of None \<Rightarrow> py_opt (phase p) | Some r \<Rightarrow> PStr r),
       pod_restarts = sum_list (map restart_count (or_empty (container_statuses p))),
       ready_containers = length (filter ready (or_empty (container_statuses p))),
       total_containers = spec_containers p, error_message = PNone \<rparr>"

definition get_pod_status_azure :: "k8s \<Rightarrow> string \<Rightarrow> string \<Rightarrow> workload_state" where
  "get_pod_status_azure v1 pod_name namespace =
     (case read_namespaced_pod v1 pod_name namespace of
        Inr p \<Rightarrow> pod_status_of_azure p
      | Inl (Raised (ApiException st) msg) \<Rightarrow>
          failed_state (if st = 404 then ''NotFound'' else ''Error'') msg
      | Inl (Raised _ msg) \<Rightarrow> failed_state ''Unknown'' msg)"

definition get_pod_node_name :: "k8s \<Rightarrow> string \<Rightarrow> string \<Rightarrow> string option" where
  "get_pod_node_name v1 pod_name namespace =
     (case read_namespaced_pod v1 pod_name namespace of
        Inr p \<Rightarrow> spec_node_name p
      | Inl e \<Rightarrow> Some ''Unknown'')"

section \<open>Event correlators\<close>

definition get_event_timestamp :: "event \<Rightarrow> int option" where
  "get_event_timestamp e =
     (case last_timestamp e of
        Some t \<Rightarrow> Some t
      | None \<Rightarrow> (case event_time e of Some t \<Rightarrow> Some t | None \<Rightarrow> first_timestamp e))"

text \<open>
  \<^verbatim>\<open>sorted(xs, key=key, reverse=True)\<close>: a stable sort into descending key order
  (equal keys keep their original order). Comparing \<^verbatim>\<open>None\<close> with a datetime raises
  \<^verbatim>\<open>TypeError\<close>; the correlators sort valid events only, so they never get there.
\<close>

definition sorted_reverse :: "('a \<Rightarrow> int option) \<Rightarrow> 'a list \<Rightarrow> error + 'a list" where
  "sorted_reverse key xs =
     (if list_ex (\<lambda>x. key x = None) xs
      then Inl (Raised TypeError ''not supported between instances of NoneType and datetime'')
      else Inr (sort_key (\<lambda>x. - the (key x)) xs))"

text \<open>\<^verbatim>\<open>xs[0]\<close>.\<close>

definition first_item :: "'a list \<Rightarrow> error + 'a" where
  "first_item xs =
     (case xs of [] \<Rightarrow> Inl (Raised IndexError ''list index out of range'') | x # _ \<Rightarrow> Inr x)"

text \<open>
  The event the correlators report: the valid events (those with a timestamp under
  \<open>key\<close>), sorted newest first, and the head of that list; \<open>None\<close> stands for an empty
  list of valid events.
\<close>

definition latest_event_by :: "(event \<Rightarrow> int option) \<Rightarrow> event list \<Rightarrow> error + event option" where
  "latest_event_by key items =
     (let valid_events = filter (\<lambda>event. key event \<noteq> None) items
      in if valid_events \<noteq> []
         then (case sorted_reverse key valid_events of
                 Inl e \<Rightarrow> Inl e
               | Inr sorted_events \<Rightarrow>
                   (case first_item sorted_events of Inl e \<Rightarrow> Inl e | Inr latest_event \<Rightarrow> Inr (Some latest_event)))
         else Inr None)"

text \<open>\<^verbatim>\<open>now - timestamp\<close>, rendered; subtracting \<^verbatim>\<open>None\<close> raises \<^verbatim>\<open>TypeError\<close>.\<close>

definition event_age :: "int \<Rightarrow> int option \<Rightarrow> error + string" where
  "event_age now ts =
     (case ts of
        None \<Rightarrow> Inl (Raised TypeError ''unsupported operand type(s) for -'')
      | Some t \<Rightarrow> Inr (format_event_age now t))"

definition pod_field_selector :: "string \<Rightarrow> string" where
  "pod_field_selector pod_name = ''involvedObject.name='' @ pod_name"

definition node_field_selector :: "string option \<Rightarrow> string" where
  "node_field_selector node_name =
     ''involvedObject.kind=Node,involvedObject.name='' @ format_opt node_name"

definition pod_event_keys :: "string list" where
  "pod_event_keys =
     [''Pod Event Type'', ''Pod Event Reason'', ''Pod Event Age'', ''Pod Event Source'',
      ''Pod Event Message'']"

definition node_event_keys :: "string list" where
  "node_event_keys =
     [''Node Name'', ''Event Reason'', ''Event Age'', ''Event Source'', ''Event Message'']"

text \<open>\<^verbatim>\<open>{key: v for key in keys}\<close>.\<close>

definition all_fields :: "string list \<Rightarrow> string \<Rightarrow> pydict" where
  "all_fields keys v = dict_of (map (\<lambda>key. (key, PStr v)) keys)"

text \<open>
  The \<^verbatim>\<open>try\<close> body of \<^verbatim>\<open>get_latest_pod_event\<close>, the same in both scripts up to
  the dictionary returned when no valid event is left (\<open>nothing\<close>). Validity and order
  are by \<^verbatim>\<open>last_timestamp\<close> alone.
\<close>

definition pod_event_body :: "k8s \<Rightarrow> int \<Rightarrow> string \<Rightarrow> string \<Rightarrow> pydict \<Rightarrow> error + pydict" where
  "pod_event_body v1 now pod_name namespace nothing =
     (case list_namespaced_event v1 namespace (pod_field_selector pod_name) of
        Inl e \<Rightarrow> Inl e
      | Inr items \<Rightarrow>
          (case latest_event_by last_timestamp items of
             Inl e \<Rightarrow> Inl e
           | Inr None \<Rightarrow> Inr nothing
           | Inr (Some latest_event) \<Rightarrow>
               (case event_age now (last_timestamp latest_event) of
                  Inl e \<Rightarrow> Inl e
                | Inr event_age_str \<Rightarrow>
                    Inr [(''Pod Event Type'', py_opt (e_type latest_event)),
                         (''Pod Event Reason'', py_opt (e_reason latest_event)),
                         (''Pod Event Age'', PStr event_age_str),
                         (''Pod Event Source'', py_opt (source_component latest_event)),
                         (''Pod Event Message'', py_opt (e_message latest_event))])))"

text \<open>\<^verbatim>\<open>get_latest_pod_event(pod_name, namespace)\<close> of the static-config script.\<close>

definition get_latest_pod_event :: "k8s \<Rightarrow> int \<Rightarrow> string \<Rightarrow> string \<Rightarrow> pydict" where
  "get_latest_pod_event v1 now pod_name namespace =
     (case pod_event_body v1 now pod_name namespace
             [(''Pod Event Type'', PStr ''No recent events''),
              (''Pod Event Reason'', PStr ''N/A''),
              (''Pod Event Age'', PStr ''N/A''),
              (''Pod Event Source'', PStr ''N/A''),
              (''Pod Event Message'', PStr ''N/A'')] of
        Inr d \<Rightarrow> d
      | Inl e \<Rightarrow>
          [(''Pod Event Type'', PStr ''Error''),
           (''Pod Event Reason'', PStr ''Unknown''),
           (''Pod Event Age'', PStr ''Unknown''),
           (''Pod Event Source'', PStr ''Unknown''),
           (''Pod Event Message'', PStr ''Unknown'')])"

text \<open>\<^verbatim>\<open>get_latest_pod_event(v1, pod_name, namespace)\<close> of the environment-driven script.\<close>

definition get_latest_pod_event_azure :: "k8s \<Rightarrow> int \<Rightarrow> string \<Rightarrow> string \<Rightarrow> pydict" where
  "get_latest_pod_event_azure v1 now pod_name namespace =
     (case pod_event_body v1 now pod_name namespace (all_fields pod_event_keys ''N/A'') of
        Inr d \<Rightarrow> d
      | Inl e \<Rightarrow> all_fields pod_event_keys ''Unknown'')"

text \<open>
  The \<^verbatim>\<open>try\<close> body of \<^verbatim>\<open>get_latest_event_details_node\<close>. Validity and order are
  by \<^verbatim>\<open>get_event_timestamp\<close>. The \<^verbatim>\<open>isinstance(event_timestamp, str)\<close> branch is
  never taken on datetimes.
\<close>

definition node_event_body :: "k8s \<Rightarrow> int \<Rightarrow> string option \<Rightarrow> pydict \<Rightarrow> error + pydict" where
  "node_event_body v1 now node_name nothing =
     (case list_event_for_all_namespaces v1 (node_field_selector node_name) of
        Inl e \<Rightarrow> Inl e
      | Inr items \<Rightarrow>
          (case latest_event_by get_event_timestamp items of
             Inl e \<Rightarrow> Inl e
           | Inr None \<Rightarrow> Inr nothing
           | Inr (Some latest_event) \<Rightarrow>
               (case event_age now (get_event_timestamp latest_event) of
                  Inl e \<Rightarrow> Inl e
                | Inr event_age_str \<Rightarrow>
                    Inr [(''Node Name'', py_opt node_name),
                         (''Event Reason'', py_opt (e_reason latest_event)),
                         (''Event Age'', PStr event_age_str),
                         (''Event Source'', py_opt (source_component latest_event)),
                         (''Event Message'', py_opt (e_message latest_event))])))"

text \<open>\<^verbatim>\<open>get_latest_event_details_node(node_name)\<close> of the static-config script.\<close>

definition get_latest_event_details_node :: "k8s \<Rightarrow> int \<Rightarrow> string option \<Rightarrow> pydict" where
  "get_latest_event_details_node v1 now node_name =
     (case node_event_body v1 now node_name
             [(''Node Name'', py_opt node_name),
              (''Event Reason'', PStr ''No recent events''),
              (''Event Age'', PStr ''N/A''),
              (''Event Source'', PStr ''N/A''),
              (''Event Message'', PStr ''N/A'')] of
        Inr d \<Rightarrow> d
      | Inl e \<Rightarrow>
          [(''Node Name'', py_opt node_name),
           (''Event Reason'', PStr ''Unknown''),
           (''Event Age'', PStr ''Unknown''),
           (''Event Source'', PStr ''Unknown''),
           (''Event Message'', PStr ''Unknown'')])"

text \<open>\<^verbatim>\<open>get_latest_event_details_node(v1, node_name)\<close> of the environment-driven script.\<close>

definition get_latest_event_details_node_azure :: "k8s \<Rightarrow> int \<Rightarrow> string option \<Rightarrow> pydict" where
  "get_latest_event_details_node_azure v1 now node_name =
     (case node_event_body v1 now node_name (all_fields node_event_keys ''N/A'') of
        Inr d \<Rightarrow> d
      | Inl e \<Rightarrow> all_fields node_event_keys ''Unknown'')"

text \<open>\<^verbatim>\<open>get_latest_event_reason\<close> and \<^verbatim>\<open>get_last_log_entry\<close> of the static-config script.\<close>

definition get_latest_event_reason :: "k8s \<Rightarrow> string \<Rightarrow> string \<Rightarrow> pyval" where
  "get_latest_event_reason v1 pod_name namespace =
     (case list_namespaced_event v1 namespace (pod_field_selector pod_name) of
        Inl e \<Rightarrow> PStr ''Unknown''
      | Inr items \<Rightarrow>
          (case latest_event_by last_timestamp items of
             Inl e \<Rightarrow> PStr ''Unknown''
           | Inr None \<Rightarrow> PStr ''No recent events''
           | Inr (Some latest_event) \<Rightarrow> py_opt (e_reason latest_event)))"

definition get_last_log_entry :: "k8s \<Rightarrow> string \<Rightarrow> string \<Rightarrow> pyval" where
  "get_last_log_entry v1 pod_name namespace =
     (case read_namespaced_pod_log v1 pod_name namespace of
        Inl e \<Rightarrow> PStr ''Log retrieval error''
      | Inr logs \<Rightarrow> if logs \<noteq> [] then PStr logs else PStr ''No logs'')"

section \<open>Metric query client\<close>

text \<open>
  The metrics backend answers a query with the list \<^verbatim>\<open>data.result\<close>: for each
  series its \<^verbatim>\<open>pod\<close> label, when it has one, and its value. A series without the
  label makes \<^verbatim>\<open>item['metric']['pod']\<close> raise \<^verbatim>\<open>KeyError\<close>.
\<close>

type_synonym series = "string option \<times> float64"

fun result_items :: "series list \<Rightarrow> error + (string \<times> float64) list" where
  "result_items [] = Inr []"
| "result_items ((None, v) # rest) = Inl (Raised KeyError ''pod'')"
| "result_items ((Some pod_label, v) # rest) =
     (case result_items rest of Inl e \<Rightarrow> Inl e | Inr d \<Rightarrow> Inr ((pod_label, v) # d))"

text \<open>The dictionary comprehension over the result: a later series of a pod replaces an earlier one.\<close>

definition result_dict :: "series list \<Rightarrow> error + (string \<times> float64) list" where
  "result_dict results = (case result_items results of Inl e \<Rightarrow> Inl e | Inr its \<Rightarrow> Inr (dict_of its))"

text \<open>
  \<^verbatim>\<open>query_prometheus(query)\<close> of the static-config script. \<open>http_get\<close> is the request
  with its status check and JSON decoding. The four \<^verbatim>\<open>except\<close> clauses catch the
  \<^verbatim>\<open>RequestException\<close> family; anything else propagates.
\<close>

definition query_prometheus :: "(string \<Rightarrow> error + series list) \<Rightarrow> string \<Rightarrow> error + (string \<times> float64) list" where
  "query_prometheus http_get query =
     (case (case http_get query of Inl e \<Rightarrow> Inl e | Inr results \<Rightarrow> result_dict results) of
        Inl (Raised RequestException msg) \<Rightarrow> Inr []
      | Inl e \<Rightarrow> Inl e
      | Inr d \<Rightarrow> Inr d)"

text \<open>
  The environment-driven script asks the credential provider for a token before every
  query, outside the \<^verbatim>\<open>try\<close>. The provider is \<open>get_access_token\<close>, indexed by the
  number of token requests made so far; \<open>http_post\<close> takes the token and the query.
\<close>

record azure_monitor =
  get_access_token :: "nat \<Rightarrow> error + string"
  http_post :: "string \<Rightarrow> string \<Rightarrow> error + series list"

definition query_prometheus_azure :: "azure_monitor \<Rightarrow> nat \<Rightarrow> string \<Rightarrow> error + (string \<times> float64) list" where
  "query_prometheus_azure backend n query =
     (case get_access_token backend n of
        Inl e \<Rightarrow> Inl e
      | Inr token \<Rightarrow>
          (case (case http_post backend token query of Inl e \<Rightarrow> Inl e | Inr results \<Rightarrow> result_dict results) of
             Inl (Raised RequestException msg) \<Rightarrow> Inr []
           | Inl e \<Rightarrow> Inl e
           | Inr d \<Rightarrow> Inr d))"

section \<open>Snapshot assembly\<close>

definition NAMESPACE :: string where
  "NAMESPACE = ''otel-demo''"

definition quoted :: "string \<Rightarrow> string" where
  "quoted s = CHR 0x22 # s @ [CHR 0x22]"

definition cpu_usage_query :: "string \<Rightarrow> string" where
  "cpu_usage_query ns =
     ''100 * max(rate(container_cpu_usage_seconds_total{namespace='' @ quoted ns @ ''}[5m])) by (pod)''"

definition memory_usage_query :: "string \<Rightarrow> string" where
  "memory_usage_query ns =
     ''container_memory_working_set_bytes{namespace='' @ quoted ns @ ''} / 1024 / 1024''"

definition memory_limit_query :: "string \<Rightarrow> string" where
  "memory_limit_query ns =
     ''kube_pod_container_resource_limits{resource='' @ quoted ''memory'' @ '', namespace='' @ quoted ns
       @ ''} / 1024 / 1024''"

definition network_traffic_query :: "string \<Rightarrow> string" where
  "network_traffic_query ns =
     ''sum(rate(container_network_receive_bytes_total{namespace='' @ quoted ns
       @ ''}[5m]) + rate(container_network_transmit_bytes_total{namespace='' @ quoted ns
       @ ''}[5m])) by (pod)''"

definition network_rate_query :: "string \<Rightarrow> string \<Rightarrow> string" where
  "network_rate_query counter ns =
     ''sum(rate('' @ counter @ ''{namespace='' @ quoted ns @ ''}[5m])) by (pod)''"

text \<open>\<^verbatim>\<open>d.get(pod, 'N/A')\<close> on a mapping of samples.\<close>

definition get_or_na :: "(string \<times> float64) list \<Rightarrow> string \<Rightarrow> pyval" where
  "get_or_na d pod = (case py_get d pod of None \<Rightarrow> PStr ''N/A'' | Some v \<Rightarrow> PFloat v)"

text \<open>
  \<^verbatim>\<open>set(memory_usage_data.keys()).union(memory_limit_data.keys())\<close>. Python leaves the
  iteration order of a set open; the model lists the usage keys first.
\<close>

definition candidate_pods :: "(string \<times> float64) list \<Rightarrow> (string \<times> float64) list \<Rightarrow> string list" where
  "candidate_pods memory_usage_data memory_limit_data =
     remdups (map fst memory_usage_data @ map fst memory_limit_data)"

text \<open>The metric mappings of one cycle of the static-config script.\<close>

record metrics =
  cpu_usage :: "(string \<times> float64) list"
  memory_usage :: "(string \<times> float64) list"
  memory_limit :: "(string \<times> float64) list"
  network_traffic :: "(string \<times> float64) list"
  network_receive :: "(string \<times> float64) list"
  network_transmit :: "(string \<times> float64) list"
  network_receive_errors :: "(string \<times> float64) list"
  network_transmit_errors :: "(string \<times> float64) list"

text \<open>
  One pass of the row-emission loop of the static-config script for a pod that is not
  excluded. The percentage cannot raise (see \<open>calculate_percentage\<close>), but the model
  keeps the branch.
\<close>

definition make_row :: "k8s \<Rightarrow> int \<Rightarrow> string \<Rightarrow> metrics \<Rightarrow> string \<Rightarrow> error + pydict" where
  "make_row v1 now timestamp m pod_name =
     (case usage_percentage (memory_usage m) (memory_limit m) pod_name of
        Inl e \<Rightarrow> Inl e
      | Inr memory_usage_percentage \<Rightarrow>
          (let event_reason = get_latest_event_reason v1 pod_name NAMESPACE;
               node_name = get_pod_node_name v1 pod_name NAMESPACE;
               last_log_entry = get_last_log_entry v1 pod_name NAMESPACE;
               st = get_pod_status v1 pod_name NAMESPACE;
               latest_pod_event_details = get_latest_pod_event v1 now pod_name NAMESPACE;
               latest_event_node_details = get_latest_event_details_node v1 now node_name
           in Inr (dict_merge (dict_merge
                [(''Timestamp'', PStr timestamp),
                 (''Pod Name'', PStr pod_name),
                 (''CPU Usage (%)'', get_or_na (cpu_usage m) pod_name),
                 (''Memory Usage (%)'', memory_usage_percentage),
                 (''Network Traffic (B/s)'', get_or_na (network_traffic m) pod_name),
                 (''Network Receive (B/s)'', get_or_na (network_receive m) pod_name),
                 (''Network Transmit (B/s)'', get_or_na (network_transmit m) pod_name),
                 (''Network Receive Errors'', get_or_na (network_receive_errors m) pod_name),
                 (''Network Transmit Errors'', get_or_na (network_transmit_errors m) pod_name),
                 (''Last Log Entry'', last_log_entry),
                 (''Pod Status'', pod_status st),
                 (''Pod Reason'', pod_reason st),
                 (''Pod Restarts'', PInt (pod_restarts st)),
                 (''Ready Containers'', PInt (int (ready_containers st))),
                 (''Total Containers'', PInt (int (total_containers st))),
                 (''Error Message'', error_message st),
                 (''Latest Event Reason'', event_reason)]
                latest_pod_event_details) latest_event_node_details)))"

text \<open>The loop itself: excluded pods are skipped, an exception leaves the loop.\<close>

fun emit_rows :: "(string \<Rightarrow> error + pydict) \<Rightarrow> string list \<Rightarrow> error + pydict list" where
  "emit_rows row [] = Inr []"
| "emit_rows row (pod_name # rest) =
     (if should_exclude_pod pod_name then emit_rows row rest
      else (case row pod_name of
              Inl e \<Rightarrow> Inl e
            | Inr r \<Rightarrow> (case emit_rows row rest of Inl e \<Rightarrow> Inl e | Inr rs \<Rightarrow> Inr (r # rs))))"

text \<open>Sequencing of calls that may raise: the first exception ends the sequence.\<close>

definition raise_or :: "error + 'a \<Rightarrow> ('a \<Rightarrow> error + 'b) \<Rightarrow> error + 'b" where
  "raise_or r f = (case r of Inl e \<Rightarrow> Inl e | Inr x \<Rightarrow> f x)"

text \<open>The eight queries of the static-config script, in the order it sends them.\<close>

definition fetch_metrics :: "(string \<Rightarrow> error + series list) \<Rightarrow> error + metrics" where
  "fetch_metrics http_get =
     raise_or (query_prometheus http_get (cpu_usage_query NAMESPACE)) (\<lambda>cpu.
     raise_or (query_prometheus http_get (memory_usage_query NAMESPACE)) (\<lambda>mem_usage.
     raise_or (query_prometheus http_get (memory_limit_query NAMESPACE)) (\<lambda>mem_limit.
     raise_or (query_prometheus http_get (network_traffic_query NAMESPACE)) (\<lambda>traffic.
     raise_or (query_prometheus http_get
                 (network_rate_query ''container_network_receive_bytes_total'' NAMESPACE)) (\<lambda>receive.
     raise_or (query_prometheus http_get
                 (network_rate_query ''container_network_transmit_bytes_total'' NAMESPACE)) (\<lambda>transmit.
     raise_or (query_prometheus http_get
                 (network_rate_query ''container_network_receive_errors_total'' NAMESPACE)) (\<lambda>receive_errors.
     raise_or (query_prometheus http_get
                 (network_rate_query ''container_network_transmit_errors_total'' NAMESPACE)) (\<lambda>transmit_errors.
     Inr \<lparr> cpu_usage = cpu, memory_usage = mem_usage, memory_limit = mem_limit,
           network_traffic = traffic, network_receive = receive, network_transmit = transmit,
           network_receive_errors = receive_errors,
           network_transmit_errors = transmit_errors \<rparr>))))))))"

text \<open>
  The body of the main loop of the static-config script up to the data frame: list the
  pods, send the queries, emit the rows. The bookkeeping of
  \<^verbatim>\<open>last_known_pod_states\<close> only prints and no row reads it; it is left out.
\<close>

definition collect_cycle ::
  "k8s \<Rightarrow> (string \<Rightarrow> error + series list) \<Rightarrow> int \<Rightarrow> string \<Rightarrow> error + pydict list" where
  "collect_cycle v1 http_get now timestamp =
     raise_or (list_namespaced_pod v1 NAMESPACE) (\<lambda>current_pods.
     raise_or (fetch_metrics http_get) (\<lambda>m.
     emit_rows (make_row v1 now timestamp m) (candidate_pods (memory_usage m) (memory_limit m))))"

text \<open>One pass of the loop of \<^verbatim>\<open>collect_pod_metrics\<close> of the environment-driven script.\<close>

definition make_row_azure ::
  "k8s \<Rightarrow> int \<Rightarrow> string \<Rightarrow> string \<Rightarrow> (string \<times> float64) list \<Rightarrow> (string \<times> float64) list \<Rightarrow>
   (string \<times> float64) list \<Rightarrow> string \<Rightarrow> error + pydict" where
  "make_row_azure v1 now timestamp namespace cpu mem_usage mem_limit pod_name =
     (case usage_percentage_azure mem_usage mem_limit pod_name of
        Inl e \<Rightarrow> Inl e
      | Inr memory_usage_percentage \<Rightarrow>
          (let st = get_pod_status_azure v1 pod_name namespace;
               latest_pod_event_details = get_latest_pod_event_azure v1 now pod_name namespace;
               node_name = get_pod_node_name v1 pod_name namespace;
               latest_event_node_details = get_latest_event_details_node_azure v1 now node_name
           in Inr (dict_merge (dict_merge
                [(''Timestamp'', PStr timestamp),
                 (''Pod Name'', PStr pod_name),
                 (''CPU Usage (%)'', get_or_na cpu pod_name),
                 (''Memory Usage (%)'', memory_usage_percentage),
                 (''Pod Status'', pod_status st),
                 (''Pod Reason'', pod_reason st),
                 (''Pod Restarts'', PInt (pod_restarts st)),
                 (''Ready Containers'', PInt (int (ready_containers st))),
                 (''Total Containers'', PInt (int (total_containers st))),
                 (''Error Message'', error_message st)]
                latest_pod_event_details) latest_event_node_details)))"

text \<open>
  \<^verbatim>\<open>collect_pod_metrics(v1)\<close>. \<open>n\<close> counts the token requests made before this
  cycle; the three queries make the requests \<open>n\<close>, \<open>n + 1\<close> and \<open>n + 2\<close>.
\<close>

definition collect_pod_metrics ::
  "k8s \<Rightarrow> azure_monitor \<Rightarrow> nat \<Rightarrow> int \<Rightarrow> string \<Rightarrow> string \<Rightarrow> error + pydict list" where
  "collect_pod_metrics v1 backend n now timestamp namespace =
     raise_or (list_namespaced_pod v1 namespace) (\<lambda>current_pods.
     raise_or (query_prometheus_azure backend n (cpu_usage_query namespace)) (\<lambda>cpu.
     raise_or (query_prometheus_azure backend (n + 1) (memory_usage_query namespace)) (\<lambda>mem_usage.
     raise_or (query_prometheus_azure backend (n + 2) (memory_limit_query namespace)) (\<lambda>mem_limit.
     emit_rows (make_row_azure v1 now timestamp namespace cpu mem_usage mem_limit)
       (candidate_pods mem_usage mem_limit)))))"

section \<open>Append sink\<close>

text \<open>
  The destination is absent (\<open>None\<close>) or holds its content. Mode \<^verbatim>\<open>'w'\<close> creates or
  truncates, mode \<^verbatim>\<open>'a'\<close> creates or writes at the end.
\<close>

datatype file_mode = Mode_w | Mode_a

definition isfile :: "string option \<Rightarrow> bool" where
  "isfile file = (file \<noteq> None)"

definition write_text :: "string option \<Rightarrow> file_mode \<Rightarrow> string \<Rightarrow> string option" where
  "write_text file m txt =
     (case m of
        Mode_w \<Rightarrow> Some txt
      | Mode_a \<Rightarrow> Some ((case file of None \<Rightarrow> [] | Some old \<Rightarrow> old) @ txt))"

text \<open>
  \<^verbatim>\<open>pd.DataFrame(data).to_csv(path, index=False, mode=m, header=h)\<close>: the header
  line when asked for, then one record per row. How pandas quotes and prints a header
  and a record is the dialect; the columns of a frame built from dictionaries are their
  keys in order of first appearance.
\<close>

record csv_dialect =
  header_line :: "string list \<Rightarrow> string"
  record_line :: "string list \<Rightarrow> pydict \<Rightarrow> string"

definition frame_columns :: "pydict list \<Rightarrow> string list" where
  "frame_columns data = rev (remdups (rev (concat (map (map fst) data))))"

definition csv_text :: "csv_dialect \<Rightarrow> bool \<Rightarrow> pydict list \<Rightarrow> string" where
  "csv_text dialect header data =
     (if header then header_line dialect (frame_columns data) else [])
     @ concat (map (record_line dialect (frame_columns data)) data)"

definition to_csv :: "csv_dialect \<Rightarrow> pydict list \<Rightarrow> string option \<Rightarrow> file_mode \<Rightarrow> bool \<Rightarrow> string option" where
  "to_csv dialect data file m header = write_text file m (csv_text dialect header data)"

text \<open>The append block at the end of the main loop of the static-config script.\<close>

definition append_block :: "csv_dialect \<Rightarrow> pydict list \<Rightarrow> string option \<Rightarrow> string option" where
  "append_block dialect data file =
     (if \<not> isfile file then to_csv dialect data file Mode_w True
      else to_csv dialect data file Mode_a False)"

text \<open>\<^verbatim>\<open>write_to_csv(data)\<close> of the environment-driven script.\<close>

definition write_to_csv :: "csv_dialect \<Rightarrow> pydict list \<Rightarrow> string option \<Rightarrow> string option" where
  "write_to_csv dialect data file =
     (let write_header = \<not> isfile file in to_csv dialect data file Mode_a write_header)"

text \<open>
  A plain dialect for concrete instances: comma-separated cells, a line feed after each
  line, no quoting, numbers cut to whole numbers and the other floats as \<^verbatim>\<open>nan\<close>.
\<close>

definition join_commas :: "string list \<Rightarrow> string" where
  "join_commas cells = (case cells of [] \<Rightarrow> [] | c # cs \<Rightarrow> c @ concat (map (\<lambda>d. CHR '','' # d) cs))"

definition plain_cell :: "pyval option \<Rightarrow> string" where
  "plain_cell v =
     (case v of
        Some (PStr t) \<Rightarrow> t
      | Some (PInt i) \<Rightarrow> str_int i
      | Some (PFloat x) \<Rightarrow> (case float_value x of None \<Rightarrow> ''nan'' | Some r \<Rightarrow> str_int (floor r))
      | _ \<Rightarrow> [])"

definition plain_csv :: csv_dialect where
  "plain_csv =
     \<lparr> header_line = (\<lambda>cols. join_commas cols @ [CHR 0x0A]),
       record_line = (\<lambda>cols r. join_commas (map (\<lambda>c. plain_cell (py_get r c)) cols) @ [CHR 0x0A]) \<rparr>"

section \<open>Scheduler loop\<close>

text \<open>
  One turn of the \<^verbatim>\<open>while True\<close> loop, as the destination sees it: an exception
  raised in the cycle is caught by \<^verbatim>\<open>except Exception\<close>, and nothing is written.
\<close>

definition main_loop_turn ::
  "csv_dialect \<Rightarrow> k8s \<Rightarrow> (string \<Rightarrow> error + series list) \<Rightarrow> int \<Rightarrow> string \<Rightarrow> string option \<Rightarrow> string option" where
  "main_loop_turn dialect v1 http_get now timestamp file =
     (case collect_cycle v1 http_get now timestamp of
        Inl e \<Rightarrow> file
      | Inr data \<Rightarrow> append_block dialect data file)"

definition main_turn_azure ::
  "csv_dialect \<Rightarrow> k8s \<Rightarrow> azure_monitor \<Rightarrow> nat \<Rightarrow> int \<Rightarrow> string \<Rightarrow> string \<Rightarrow> string option \<Rightarrow> string option" where
  "main_turn_azure dialect v1 backend n now timestamp namespace file =
     (case collect_pod_metrics v1 backend n now timestamp namespace of
        Inl e \<Rightarrow> file
      | Inr data \<Rightarrow> write_to_csv dialect data file)"

section \<open>Vocabulary of the properties\<close>

text \<open>
  An init container that terminated with a nonzero exit code: the condition of the
  \<^verbatim>\<open>if\<close> in the init loop.
\<close>

definition init_failed :: "container_status \<Rightarrow> bool" where
  "init_failed c = (case terminated (state c) of None \<Rightarrow> False | Some t \<Rightarrow> exit_code t \<noteq> 0)"

text \<open>The sum of the restart counts of a list of container statuses.\<close>

definition total_restarts :: "container_status list \<Rightarrow> int" where
  "total_restarts cs = sum_list (map restart_count cs)"

text \<open>
  The summaries the correlators return for a selected event \<open>l\<close> whose timestamp
  is \<open>t\<close>.
\<close>

definition pod_event_found :: "int \<Rightarrow> event \<Rightarrow> int \<Rightarrow> pydict" where
  "pod_event_found now l t =
     [(''Pod Event Type'', py_opt (e_type l)),
      (''Pod Event Reason'', py_opt (e_reason l)),
      (''Pod Event Age'', PStr (format_event_age now t)),
      (''Pod Event Source'', py_opt (source_component l)),
      (''Pod Event Message'', py_opt (e_message l))]"

definition node_event_found :: "string option \<Rightarrow> int \<Rightarrow> event \<Rightarrow> int \<Rightarrow> pydict" where
  "node_event_found node_name now l t =
     [(''Node Name'', py_opt node_name),
      (''Event Reason'', py_opt (e_reason l)),
      (''Event Age'', PStr (format_event_age now t)),
      (''Event Source'', py_opt (source_component l)),
      (''Event Message'', py_opt (e_message l))]"




section \<open>Concrete instances\<close>

text \<open>A cluster in which every pod read returns \<open>p\<close> and every event list is \<open>evs\<close>.\<close>

definition cluster_of :: "pod \<Rightarrow> event list \<Rightarrow> k8s" where
  "cluster_of p evs =
     \<lparr> read_namespaced_pod = (\<lambda>pod_name namespace. Inr p),
       list_namespaced_event = (\<lambda>namespace selector. Inr evs),
       list_event_for_all_namespaces = (\<lambda>selector. Inr evs),
       read_namespaced_pod_log = (\<lambda>pod_name namespace. Inr ''ready''),
       list_namespaced_pod = (\<lambda>namespace. Inr [(''checkout-7f'', phase p)]) \<rparr>"

text \<open>A cluster whose API raises on every call.\<close>

definition cluster_down :: k8s where
  "cluster_down =
     \<lparr> read_namespaced_pod = (\<lambda>pod_name namespace. Inl (Raised (ApiException 500) ''down'')),
       list_namespaced_event = (\<lambda>namespace selector. Inl (Raised (ApiException 500) ''down'')),
       list_event_for_all_namespaces = (\<lambda>selector. Inl (Raised (ApiException 500) ''down'')),
       read_namespaced_pod_log = (\<lambda>pod_name namespace. Inl (Raised (ApiException 500) ''down'')),
       list_namespaced_pod = (\<lambda>namespace. Inl (Raised (ApiException 500) ''down'')) \<rparr>"

definition container_in :: "int \<Rightarrow> bool \<Rightarrow> container_state \<Rightarrow> container_status" where
  "container_in n r s = \<lparr> restart_count = n, ready = r, state = s \<rparr>"

definition state_running :: container_state where
  "state_running = \<lparr> waiting = None, terminated = None \<rparr>"

definition state_waiting :: "string \<Rightarrow> container_state" where
  "state_waiting r = \<lparr> waiting = Some \<lparr> waiting_reason = Some r \<rparr>, terminated = None \<rparr>"

definition state_terminated :: "int \<Rightarrow> string option \<Rightarrow> container_state" where
  "state_terminated code r =
     \<lparr> waiting = None, terminated = Some \<lparr> exit_code = code, terminated_reason = r \<rparr> \<rparr>"

text \<open>A pod whose init container has crashed while the application still waits.\<close>

definition pod_init_crashed :: pod where
  "pod_init_crashed =
     \<lparr> phase = Some ''Pending'', status_reason = None,
       container_statuses = Some [container_in 0 False (state_waiting ''PodInitializing'')],
       init_container_statuses = Some [container_in 2 False (state_terminated 1 (Some ''Error''))],
       spec_containers = 1, spec_node_name = Some ''node-a'' \<rparr>"

text \<open>
  A pod with a sidecar among its init containers (it keeps running) and an application
  container that has been restarted three times.
\<close>

definition pod_with_sidecar :: pod where
  "pod_with_sidecar =
     \<lparr> phase = Some ''Running'', status_reason = None,
       container_statuses = Some [container_in 3 False (state_waiting ''CrashLoopBackOff'')],
       init_container_statuses = Some [container_in 0 True state_running],
       spec_containers = 1, spec_node_name = Some ''node-a'' \<rparr>"

text \<open>A running pod whose init container succeeded on its third attempt.\<close>

definition pod_init_retried :: pod where
  "pod_init_retried =
     \<lparr> phase = Some ''Running'', status_reason = None,
       container_statuses = Some [container_in 1 True state_running],
       init_container_statuses = Some [container_in 2 False (state_terminated 0 (Some ''Completed''))],
       spec_containers = 1, spec_node_name = Some ''node-a'' \<rparr>"

text \<open>A metrics backend that answers every query with the same series.\<close>

definition backend_with :: "series list \<Rightarrow> string \<Rightarrow> error + series list" where
  "backend_with results query = Inr results"

text \<open>
  The same behind a credential provider; \<open>tokens\<close> says how each token request
  ends.
\<close>

definition monitor_with :: "(nat \<Rightarrow> error + string) \<Rightarrow> series list \<Rightarrow> azure_monitor" where
  "monitor_with tokens results =
     \<lparr> get_access_token = tokens, http_post = (\<lambda>token query. Inr results) \<rparr>"

text \<open>A running pod with one ready container and no init containers.\<close>

definition pod_running :: pod where
  "pod_running =
     \<lparr> phase = Some ''Running'', status_reason = None,
       container_statuses = Some [container_in 0 True state_running],
       init_container_statuses = None,
       spec_containers = 1, spec_node_name = Some ''node-a'' \<rparr>"

text \<open>
  Two events: one observed with a last-observed timestamp at second 10, and a later one,
  at second 20, that carries only the event-time field.
\<close>

definition event_pulled :: event where
  "event_pulled =
     \<lparr> last_timestamp = Some 10000000, event_time = None, first_timestamp = Some 5000000,
       e_type = Some ''Normal'', e_reason = Some ''Pulled'', source_component = Some ''kubelet'',
       e_message = Some ''Image pulled'' \<rparr>"

definition event_backoff :: event where
  "event_backoff =
     \<lparr> last_timestamp = None, event_time = Some 20000000, first_timestamp = None,
       e_type = Some ''Warning'', e_reason = Some ''BackOff'', source_component = None,
       e_message = Some ''Back-off restarting failed container'' \<rparr>"

text \<open>A credential provider whose request number \<open>k\<close> is refused.\<close>

definition token_fails_at :: "nat \<Rightarrow> nat \<Rightarrow> error + string" where
  "token_fails_at k n =
     (if n = k then Inl (Raised RequestException ''401 Client Error: Unauthorized'') else Inr ''token'')"

text \<open>A destination that already holds a header and one record.\<close>

definition stored_file :: string where
  "stored_file = ''Pod Name'' @ [CHR 0x0A] @ ''checkout-7f'' @ [CHR 0x0A]"

text \<open>The metric mappings of a cycle in which only the two memory queries returned samples.\<close>

definition memory_metrics :: "(string \<times> float64) list \<Rightarrow> (string \<times> float64) list \<Rightarrow> metrics" where
  "memory_metrics usage limit =
     \<lparr> cpu_usage = [], memory_usage = usage, memory_limit = limit, network_traffic = [],
       network_receive = [], network_transmit = [], network_receive_errors = [],
       network_transmit_errors = [] \<rparr>"


text \<open>
  A metrics backend that has a memory limit for one pod and no other sample, and the
  same behind a credential provider that always grants the token.
\<close>

definition limit_only_backend :: "string \<Rightarrow> error + series list" where
  "limit_only_backend query =
     (if query = memory_limit_query NAMESPACE then Inr [(Some ''cart-5d'', float_of_int 128)]
      else Inr [])"

definition limit_only_monitor :: azure_monitor where
  "limit_only_monitor =
     \<lparr> get_access_token = (\<lambda>n. Inr ''token''),
       http_post = (\<lambda>token query.
         if query = memory_limit_query ''otel-demo'' then Inr [(Some ''cart-5d'', float_of_int 128)]
         else Inr []) \<rparr>"

section \<open>Properties of the usage percentage\<close>

lemma gt_zero_not_zero: "float_gt_zero x \<Longrightarrow> \<not> float_is_zero x"
  by (cases x) (simp_all add: float_gt_zero_def float_is_zero_def)

lemma float_of_int_0: "float_of_int 0 = Finite False 0 0"
  by (simp add: float_of_int_def round64_def)

lemmas float_eval =
  float_of_int_def round64_def floor_log2_def round_half_even_def finite64_def
  bit_length.simps strip_zeros.simps Let_def

lemma float_of_int_100: "float_of_int 100 = Finite False 25 2"
  by (simp add: float_eval)

lemma half_times_100:
  "float_mul (float_div (float_of_int 50) (float_of_int 100)) (float_of_int 100) = float_of_int 50"
  by (simp add: float_eval)

lemma float_of_int_0_not_gt: "\<not> float_gt_zero (float_of_int 0)"
  by (simp add: float_of_int_0 float_gt_zero_def)

lemma zero_div_positive:
  "float_gt_zero limit \<Longrightarrow> float_div (Finite False 0 0) limit = Finite False 0 0"
  by (cases limit) (simp_all add: float_gt_zero_def round64_def)

lemma zero_times_100: "float_mul (Finite False 0 0) (float_of_int 100) = Finite False 0 0"
  by (simp add: float_of_int_100 round64_def)

lemma calculate_percentage_returns: "\<exists>v. calculate_percentage usage limit = Inr v"
  by (simp add: calculate_percentage_def py_truediv_def gt_zero_not_zero)

lemma usage_percentage_returns: "\<exists>v. usage_percentage mu ml pod = Inr v"
  by (simp add: usage_percentage_def calculate_percentage_returns)

lemma usage_percentage_azure_eq: "usage_percentage_azure mu ml pod = usage_percentage mu ml pod"
  by (simp add: usage_percentage_azure_def usage_percentage_def calculate_percentage_def)

lemma usage_percentage_positive:
  "py_get ml pod = Some limit \<Longrightarrow> float_gt_zero limit \<Longrightarrow>
   usage_percentage mu ml pod =
     Inr (PFloat (float_mul (float_div (get_or_zero mu pod) limit) (float_of_int 100)))"
  by (simp add: usage_percentage_def calculate_percentage_def py_truediv_def get_or_zero_def
      gt_zero_not_zero)

lemma usage_percentage_not_applicable:
  "py_get ml pod = None \<or> py_get ml pod = Some (Finite s 0 e) \<Longrightarrow>
   usage_percentage mu ml pod = Inr (PStr ''N/A'')"
proof -
  assume "py_get ml pod = None \<or> py_get ml pod = Some (Finite s 0 e)"
  then have "\<not> float_gt_zero (get_or_zero ml pod)"
    by (auto simp: get_or_zero_def float_of_int_0_not_gt) (simp add: float_gt_zero_def)
  then show ?thesis
    by (simp add: usage_percentage_def calculate_percentage_def)
qed

text \<open>
  Claim C7, as stated, fails in its last part: the percentage is computed in binary64
  and rounded after the division and again after the multiplication. For usage 7 and
  limit 25 both scripts return 28.000000000000004, that is \<open>28 + 2\<^sup>-\<^sup>4\<^sup>8\<close>, where
  100 \<times> usage / limit is 28; for usage 1e308 and limit 1e-308 they return infinity.
\<close>

theorem percentage_is_rounded_twice:
  "usage_percentage [(''checkout-7f'', float_of_int 7)] [(''checkout-7f'', float_of_int 25)] ''checkout-7f''
     = Inr (PFloat (Finite False 7881299347898369 (- 48)))
   \<and> usage_percentage_azure [(''checkout-7f'', float_of_int 7)] [(''checkout-7f'', float_of_int 25)] ''checkout-7f''
     = Inr (PFloat (Finite False 7881299347898369 (- 48)))
   \<and> float_value (float_of_int 7) = Some 7
   \<and> float_value (float_of_int 25) = Some 25
   \<and> float_value (Finite False 7881299347898369 (- 48)) = Some (28 + 1 / 2 ^ 48)
   \<and> (28 + 1 / 2 ^ 48 :: real) \<noteq> 100 * 7 / 25
   \<and> usage_percentage [(''checkout-7f'', Finite False 156575653125701 976)]
        [(''checkout-7f'', Finite False 1012011266536553 (- 1073))] ''checkout-7f'' = Inr (PFloat (Infinity False))"
  by (simp add: usage_percentage_def usage_percentage_azure_def calculate_percentage_def
      py_truediv_def get_or_zero_def py_get_def float_gt_zero_def float_is_zero_def
      float_value_def float_eval)

text \<open>
  Claim C7, amended. For an entity whose memory limit is 0 or absent from the limit
  mapping, the usage percentage is the marker \<^verbatim>\<open>'N/A'\<close>; the computation never raises
  (so never a division by zero); and for a limit greater than 0 the percentage is the
  binary64 value of \<^verbatim>\<open>(usage / limit) * 100\<close>, the quotient rounded and then the product
  rounded, an absent usage counting as 0. Both scripts.
\<close>

theorem percentage_never_divides_by_zero:
  "(py_get memory_limit_data pod = None \<or> (\<exists>s e. py_get memory_limit_data pod = Some (Finite s 0 e)) \<longrightarrow>
      usage_percentage memory_usage_data memory_limit_data pod = Inr (PStr ''N/A'') \<and>
      usage_percentage_azure memory_usage_data memory_limit_data pod = Inr (PStr ''N/A''))
   \<and> (\<exists>v. usage_percentage memory_usage_data memory_limit_data pod = Inr v)
   \<and> (\<exists>v. usage_percentage_azure memory_usage_data memory_limit_data pod = Inr v)
   \<and> (\<forall>limit. py_get memory_limit_data pod = Some limit \<and> float_gt_zero limit \<longrightarrow>
        usage_percentage memory_usage_data memory_limit_data pod =
          Inr (PFloat (float_mul (float_div (get_or_zero memory_usage_data pod) limit) (float_of_int 100))) \<and>
        usage_percentage_azure memory_usage_data memory_limit_data pod =
          Inr (PFloat (float_mul (float_div (get_or_zero memory_usage_data pod) limit) (float_of_int 100))))"
  using usage_percentage_not_applicable [of memory_limit_data pod _ _ memory_usage_data]
    usage_percentage_returns [of memory_usage_data memory_limit_data pod]
    usage_percentage_positive [of memory_limit_data pod _ memory_usage_data]
  by (auto simp: usage_percentage_azure_eq)

theorem percentage_never_divides_by_zero_witness:
  "usage_percentage [(''checkout-7f'', float_of_int 50)] [(''checkout-7f'', float_of_int 100)] ''checkout-7f''
     = Inr (PFloat (float_of_int 50))
   \<and> usage_percentage_azure [(''checkout-7f'', float_of_int 50)] [(''checkout-7f'', float_of_int 100)] ''checkout-7f''
     = Inr (PFloat (float_of_int 50))
   \<and> float_value (float_of_int 50) = Some 50
   \<and> usage_percentage [(''checkout-7f'', float_of_int 50)] [(''checkout-7f'', float_of_int 0)] ''checkout-7f''
     = Inr (PStr ''N/A'')
   \<and> usage_percentage_azure [(''checkout-7f'', float_of_int 50)] [] ''checkout-7f'' = Inr (PStr ''N/A'')"
proof -
  have g: "float_gt_zero (float_of_int 100)"
    by (simp add: float_of_int_100 float_gt_zero_def)
  have z: "\<exists>s e. float_of_int 0 = Finite s 0 e"
    using float_of_int_0 by blast
  have v: "float_value (float_of_int 50) = Some 50"
    by (simp add: float_eval float_value_def)
  show ?thesis
    using percentage_never_divides_by_zero [of "[(''checkout-7f'', float_of_int 100)]" "''checkout-7f''"
        "[(''checkout-7f'', float_of_int 50)]"]
      percentage_never_divides_by_zero [of "[(''checkout-7f'', float_of_int 0)]" "''checkout-7f''"
        "[(''checkout-7f'', float_of_int 50)]"]
      percentage_never_divides_by_zero [of "[]" "''checkout-7f''" "[(''checkout-7f'', float_of_int 50)]"]
      g z v
    by (simp add: py_get_def get_or_zero_def half_times_100)
qed

section \<open>Shapes of the event summaries\<close>

lemma merge_lookup_other:
  "k \<notin> set (map fst b) \<Longrightarrow> py_get (dict_merge a b) k = py_get a k"
  unfolding dict_merge_def py_get_def
  by (induction b arbitrary: a) (auto simp: AList.update_conv')

lemma all_fields_pod:
  "all_fields pod_event_keys v =
     [(''Pod Event Type'', PStr v), (''Pod Event Reason'', PStr v), (''Pod Event Age'', PStr v),
      (''Pod Event Source'', PStr v), (''Pod Event Message'', PStr v)]"
  by (simp add: all_fields_def pod_event_keys_def dict_of_def)

lemma all_fields_node:
  "all_fields node_event_keys v =
     [(''Node Name'', PStr v), (''Event Reason'', PStr v), (''Event Age'', PStr v),
      (''Event Source'', PStr v), (''Event Message'', PStr v)]"
  by (simp add: all_fields_def node_event_keys_def dict_of_def)

lemma get_latest_pod_event_keys:
  "map fst (get_latest_pod_event v1 now pod_name namespace) = pod_event_keys"
  by (simp add: get_latest_pod_event_def pod_event_body_def pod_event_keys_def
      split: sum.splits option.splits)

lemma get_latest_pod_event_azure_keys:
  "map fst (get_latest_pod_event_azure v1 now pod_name namespace) = pod_event_keys"
  by (simp add: get_latest_pod_event_azure_def pod_event_body_def all_fields_pod
      split: sum.splits option.splits) (simp add: pod_event_keys_def)

lemma get_latest_event_details_node_keys:
  "map fst (get_latest_event_details_node v1 now node_name) = node_event_keys"
  by (simp add: get_latest_event_details_node_def node_event_body_def node_event_keys_def
      split: sum.splits option.splits)

lemma get_latest_event_details_node_azure_keys:
  "map fst (get_latest_event_details_node_azure v1 now node_name) = node_event_keys"
  by (simp add: get_latest_event_details_node_azure_def node_event_body_def all_fields_node
      split: sum.splits option.splits) (simp add: node_event_keys_def)

section \<open>Properties of the event correlators\<close>

text \<open>
  Claim C10. In the static-config script the node-level event summary always carries
  the queried node name: whatever the lookup does (an event found, no event found, the
  lookup raising), the field \<^verbatim>\<open>'Node Name'\<close> of the returned record is the input.
\<close>

theorem node_summary_carries_node_name:
  "py_get (get_latest_event_details_node v1 now node_name) ''Node Name'' = Some (py_opt node_name)"
  by (simp add: get_latest_event_details_node_def node_event_body_def py_get_def
      split: sum.splits option.splits)

section \<open>Properties of the workload state reader\<close>













lemma init_loop_restarts:
  "fst (init_loop cs r0 reason0) =
     r0 + total_restarts (takeWhile (\<lambda>c. \<not> init_failed c) cs)
        + total_restarts (take 1 (dropWhile (\<lambda>c. \<not> init_failed c) cs))"
  by (induction cs arbitrary: r0)
     (auto simp: init_failed_def total_restarts_def split: option.splits)

lemma container_loop_restarts:
  "fst (container_loop cs r0 reason0) = r0 + total_restarts cs"
  by (induction cs arbitrary: r0 reason0) (auto simp: total_restarts_def)

lemma fine_no_failed:
  "init_containers_fine (Some cs) \<Longrightarrow> takeWhile (\<lambda>c. \<not> init_failed c) cs = cs
     \<and> dropWhile (\<lambda>c. \<not> init_failed c) cs = []"
  by (induction cs) (auto simp: init_containers_fine_def init_failed_def split: option.splits)

lemma pod_restarts_static:
  "pod_restarts (pod_status_of p) =
     total_restarts (takeWhile (\<lambda>c. \<not> init_failed c) (or_empty (init_container_statuses p)))
   + total_restarts (take 1 (dropWhile (\<lambda>c. \<not> init_failed c) (or_empty (init_container_statuses p))))
   + (if init_containers_fine (init_container_statuses p)
      then total_restarts (or_empty (container_statuses p)) else 0)"
proof -
  define reason0 where "reason0 = (case status_reason p of None \<Rightarrow> py_opt (phase p) | Some r \<Rightarrow> PStr r)"
  obtain r1 reason1 where i: "init_loop (or_empty (init_container_statuses p)) 0 reason0 = (r1, reason1)"
    by (cases "init_loop (or_empty (init_container_statuses p)) 0 reason0")
  obtain r2 reason2 where c: "container_loop (or_empty (container_statuses p)) r1 reason1 = (r2, reason2)"
    by (cases "container_loop (or_empty (container_statuses p)) r1 reason1")
  have r1: "r1 = total_restarts (takeWhile (\<lambda>c. \<not> init_failed c) (or_empty (init_container_statuses p)))
      + total_restarts (take 1 (dropWhile (\<lambda>c. \<not> init_failed c) (or_empty (init_container_statuses p))))"
    using init_loop_restarts [of "or_empty (init_container_statuses p)" 0 reason0] i by simp
  have r2: "r2 = r1 + total_restarts (or_empty (container_statuses p))"
    using container_loop_restarts [of "or_empty (container_statuses p)" r1 reason1] c by simp
  have "pod_restarts (pod_status_of p) = (if init_containers_fine (init_container_statuses p) then r2 else r1)"
    using i c by (simp add: pod_status_of_def reason0_def)
  then show ?thesis using r1 r2 by simp
qed

text \<open>
  Claim C5, as stated, fails: the static-config script leaves the regular containers
  out whenever some init container has not terminated with exit code 0 (here a sidecar
  that keeps running), and the environment-driven script never counts init containers.
\<close>

theorem restart_count_is_not_the_total:
  "pod_restarts (get_pod_status (cluster_of pod_with_sidecar []) ''checkout-7f'' ''otel-demo'')
     \<noteq> total_restarts (or_empty (init_container_statuses pod_with_sidecar))
       + total_restarts (or_empty (container_statuses pod_with_sidecar))
   \<and> pod_restarts (get_pod_status_azure (cluster_of pod_init_retried []) ''checkout-7f'' ''otel-demo'')
     \<noteq> total_restarts (or_empty (init_container_statuses pod_init_retried))
       + total_restarts (or_empty (container_statuses pod_init_retried))"
  by (simp add: get_pod_status_def get_pod_status_azure_def pod_status_of_def pod_status_of_azure_def
      cluster_of_def pod_with_sidecar_def pod_init_retried_def container_in_def
      state_terminated_def state_running_def state_waiting_def init_containers_fine_def
      total_restarts_def or_empty_def)

text \<open>
  Claim C5, amended. When the workload has been read: in the static-config script, if
  the workload has no init statuses or every init container has terminated with exit
  code 0, the restart count is the sum over all init containers plus the sum over all
  regular containers; otherwise it is the sum over the init containers up to and
  including the first one that terminated nonzero, and the regular containers add
  nothing. In the environment-driven script it is the sum over the regular containers.
\<close>

theorem restart_count_accumulation:
  assumes "read_namespaced_pod v1 pod_name namespace = Inr p"
  shows "(init_containers_fine (init_container_statuses p) \<longrightarrow>
            pod_restarts (get_pod_status v1 pod_name namespace) =
              total_restarts (or_empty (init_container_statuses p))
              + total_restarts (or_empty (container_statuses p)))
    \<and> (\<not> init_containers_fine (init_container_statuses p) \<longrightarrow>
            pod_restarts (get_pod_status v1 pod_name namespace) =
              total_restarts (takeWhile (\<lambda>c. \<not> init_failed c) (or_empty (init_container_statuses p)))
              + total_restarts (take 1 (dropWhile (\<lambda>c. \<not> init_failed c) (or_empty (init_container_statuses p)))))
    \<and> pod_restarts (get_pod_status_azure v1 pod_name namespace) =
          total_restarts (or_empty (container_statuses p))"
proof -
  have a: "pod_restarts (get_pod_status v1 pod_name namespace) = pod_restarts (pod_status_of p)"
    using assms by (simp add: get_pod_status_def)
  have b: "pod_restarts (get_pod_status_azure v1 pod_name namespace) =
      total_restarts (or_empty (container_statuses p))"
    using assms by (simp add: get_pod_status_azure_def pod_status_of_azure_def total_restarts_def)
  have c: "total_restarts (takeWhile (\<lambda>c. \<not> init_failed c) (or_empty (init_container_statuses p)))
      + total_restarts (take 1 (dropWhile (\<lambda>c. \<not> init_failed c) (or_empty (init_container_statuses p))))
      = total_restarts (or_empty (init_container_statuses p))"
    if "init_containers_fine (init_container_statuses p)"
  proof (cases "init_container_statuses p")
    case None
    then show ?thesis by (simp add: or_empty_def total_restarts_def)
  next
    case (Some cs)
    with that have "init_containers_fine (Some cs)" by simp
    from fine_no_failed [OF this] Some show ?thesis
      by (simp only: or_empty_def option.case take.simps total_restarts_def list.map sum_list.Nil add_0_right)
  qed
  show ?thesis
    using c by (simp add: a b pod_restarts_static)
qed

theorem restart_count_accumulation_witness:
  "pod_restarts (get_pod_status (cluster_of pod_init_retried []) ''checkout-7f'' ''otel-demo'') = 3
   \<and> pod_restarts (get_pod_status (cluster_of pod_init_crashed []) ''checkout-7f'' ''otel-demo'') = 2
   \<and> pod_restarts (get_pod_status_azure (cluster_of pod_init_retried []) ''checkout-7f'' ''otel-demo'') = 1"
  using restart_count_accumulation [of "cluster_of pod_init_retried []" "''checkout-7f''" "''otel-demo''" pod_init_retried]
    restart_count_accumulation [of "cluster_of pod_init_crashed []" "''checkout-7f''" "''otel-demo''" pod_init_crashed]
  by (simp add: cluster_of_def pod_init_retried_def pod_init_crashed_def container_in_def
      state_terminated_def state_running_def state_waiting_def init_containers_fine_def
      init_failed_def total_restarts_def or_empty_def)

section \<open>Properties of the snapshot assembly\<close>

lemma make_row_pod_name:
  assumes "make_row v1 now timestamp m pod_name = Inr r"
  shows "py_get r ''Pod Name'' = Some (PStr pod_name)"
proof -
  have p: "''Pod Name'' \<notin> set (map fst (get_latest_pod_event v1 now pod_name NAMESPACE))"
    by (simp add: get_latest_pod_event_keys pod_event_keys_def)
  have n: "''Pod Name'' \<notin> set (map fst (get_latest_event_details_node v1 now
      (get_pod_node_name v1 pod_name NAMESPACE)))"
    by (simp add: get_latest_event_details_node_keys node_event_keys_def)
  from assms show ?thesis
    by (auto simp: make_row_def Let_def merge_lookup_other [OF n] merge_lookup_other [OF p]
        split: sum.splits) (simp add: py_get_def)
qed

lemma make_row_azure_pod_name:
  assumes "make_row_azure v1 now timestamp namespace cpu mu ml pod_name = Inr r"
  shows "py_get r ''Pod Name'' = Some (PStr pod_name)"
proof -
  have p: "''Pod Name'' \<notin> set (map fst (get_latest_pod_event_azure v1 now pod_name namespace))"
    by (simp add: get_latest_pod_event_azure_keys pod_event_keys_def)
  have n: "''Pod Name'' \<notin> set (map fst (get_latest_event_details_node_azure v1 now
      (get_pod_node_name v1 pod_name namespace)))"
    by (simp add: get_latest_event_details_node_azure_keys node_event_keys_def)
  from assms show ?thesis
    by (auto simp: make_row_azure_def Let_def merge_lookup_other [OF n] merge_lookup_other [OF p]
        split: sum.splits) (simp add: py_get_def)
qed

lemma emit_rows_origin:
  "emit_rows row pods = Inr rows \<Longrightarrow> r \<in> set rows \<Longrightarrow>
   \<exists>p \<in> set pods. \<not> should_exclude_pod p \<and> row p = Inr r"
  by (induction pods arbitrary: rows) (auto split: if_splits sum.splits)

lemma should_exclude_pod_iff:
  "should_exclude_pod pod_name \<longleftrightarrow>
     (\<exists>excluded \<in> set EXCLUDE_POD_NAMES. \<exists>before after. pod_name = before @ excluded @ after)"
  by (simp add: should_exclude_pod_def list_ex_iff sublist_def)

lemma grafana_pod_excluded: "should_exclude_pod ''my-grafana-5d''"
  by code_simp

lemma checkout_pod_kept: "\<not> should_exclude_pod ''checkout-7f''"
  by code_simp

lemma make_row_total: "\<exists>r. make_row v1 now timestamp m pod_name = Inr r"
  using usage_percentage_returns [of "memory_usage m" "memory_limit m" pod_name]
  by (auto simp: make_row_def Let_def)

lemma make_row_azure_total: "\<exists>r. make_row_azure v1 now timestamp namespace cpu mu ml pod_name = Inr r"
  using usage_percentage_returns [of mu ml pod_name]
  by (auto simp: make_row_azure_def Let_def usage_percentage_azure_eq)

lemma fetch_backend_with:
  "result_dict results = Inr d \<Longrightarrow> \<exists>m. fetch_metrics (backend_with results) = Inr m \<and> memory_usage m = d \<and> memory_limit m = d"
  by (simp add: fetch_metrics_def raise_or_def query_prometheus_def backend_with_def)

lemma two_series:
  "result_dict [(Some ''my-grafana-5d'', float_of_int 10), (Some ''checkout-7f'', float_of_int 50)]
     = Inr [(''my-grafana-5d'', float_of_int 10), (''checkout-7f'', float_of_int 50)]"
  by (simp add: result_dict_def dict_of_def)

text \<open>
  Claim C6. For an entity whose name contains a member of the exclusion list as a
  substring, no row with that entity's name appears in the rows of any cycle, whatever
  the metric mappings hold. Both scripts.
\<close>

theorem excluded_pods_have_no_row:
  assumes "excluded \<in> set EXCLUDE_POD_NAMES" and "pod_name = before @ excluded @ after"
  shows "(\<forall>rows. collect_cycle v1 http_get now timestamp = Inr rows \<longrightarrow>
            (\<forall>r \<in> set rows. py_get r ''Pod Name'' \<noteq> Some (PStr pod_name)))
      \<and> (\<forall>rows. collect_pod_metrics v1 backend n now timestamp namespace = Inr rows \<longrightarrow>
            (\<forall>r \<in> set rows. py_get r ''Pod Name'' \<noteq> Some (PStr pod_name)))"
proof -
  have ex: "should_exclude_pod pod_name"
    using assms should_exclude_pod_iff by blast
  have 1: "py_get r ''Pod Name'' \<noteq> Some (PStr pod_name)"
    if "collect_cycle v1 http_get now timestamp = Inr rows" "r \<in> set rows" for rows r
  proof -
    from that(1) obtain m where
      "emit_rows (make_row v1 now timestamp m) (candidate_pods (memory_usage m) (memory_limit m)) = Inr rows"
      by (auto simp: collect_cycle_def raise_or_def split: sum.splits)
    from emit_rows_origin [OF this that(2)] obtain p where
      "\<not> should_exclude_pod p" "make_row v1 now timestamp m p = Inr r" by blast
    with make_row_pod_name ex show ?thesis by fastforce
  qed
  have 2: "py_get r ''Pod Name'' \<noteq> Some (PStr pod_name)"
    if "collect_pod_metrics v1 backend n now timestamp namespace = Inr rows" "r \<in> set rows" for rows r
  proof -
    from that(1) obtain cpu mu ml where
      "emit_rows (make_row_azure v1 now timestamp namespace cpu mu ml) (candidate_pods mu ml) = Inr rows"
      by (auto simp: collect_pod_metrics_def raise_or_def split: sum.splits)
    from emit_rows_origin [OF this that(2)] obtain p where
      "\<not> should_exclude_pod p" "make_row_azure v1 now timestamp namespace cpu mu ml p = Inr r" by blast
    with make_row_azure_pod_name ex show ?thesis by fastforce
  qed
  show ?thesis using 1 2 by blast
qed

theorem excluded_pods_have_no_row_witness:
  "\<exists>r. collect_cycle (cluster_of pod_running [])
          (backend_with [(Some ''my-grafana-5d'', float_of_int 10), (Some ''checkout-7f'', float_of_int 50)]) 0 ''2024-01-01 00:00:00''
        = Inr [r]
      \<and> py_get r ''Pod Name'' = Some (PStr ''checkout-7f'')
      \<and> py_get r ''Pod Name'' \<noteq> Some (PStr ''my-grafana-5d'')"
proof -
  let ?res = "[(Some ''my-grafana-5d'', float_of_int 10), (Some ''checkout-7f'', float_of_int 50)] :: series list"
  let ?v1 = "cluster_of pod_running []"
  obtain m where m: "fetch_metrics (backend_with ?res) = Inr m"
    "memory_usage m = [(''my-grafana-5d'', float_of_int 10), (''checkout-7f'', float_of_int 50)]"
    "memory_limit m = [(''my-grafana-5d'', float_of_int 10), (''checkout-7f'', float_of_int 50)]"
    using fetch_backend_with [OF two_series] by blast
  obtain r where r: "make_row ?v1 0 ''2024-01-01 00:00:00'' m ''checkout-7f'' = Inr r"
    using make_row_total by blast
  have c: "collect_cycle ?v1 (backend_with ?res) 0 ''2024-01-01 00:00:00'' = Inr [r]"
    using m r grafana_pod_excluded checkout_pod_kept
    by (simp add: collect_cycle_def raise_or_def cluster_of_def candidate_pods_def)
  have "py_get r ''Pod Name'' \<noteq> Some (PStr ''my-grafana-5d'')"
    using excluded_pods_have_no_row [of "''grafana''" "''my-grafana-5d''" "''my-''" "''-5d''"
        ?v1 "backend_with ?res" 0 "''2024-01-01 00:00:00''"] c
    by (simp add: EXCLUDE_POD_NAMES_def)
  moreover have "py_get r ''Pod Name'' = Some (PStr ''checkout-7f'')"
    using r by (rule make_row_pod_name)
  ultimately show ?thesis using c by blast
qed

lemma make_row_percentage:
  assumes "usage_percentage (memory_usage m) (memory_limit m) pod_name = Inr v"
  shows "\<exists>r. make_row v1 now timestamp m pod_name = Inr r \<and> py_get r ''Memory Usage (%)'' = Some v"
proof -
  have p: "''Memory Usage (%)'' \<notin> set (map fst (get_latest_pod_event v1 now pod_name NAMESPACE))"
    by (simp add: get_latest_pod_event_keys pod_event_keys_def)
  have n: "''Memory Usage (%)'' \<notin> set (map fst (get_latest_event_details_node v1 now
      (get_pod_node_name v1 pod_name NAMESPACE)))"
    by (simp add: get_latest_event_details_node_keys node_event_keys_def)
  from assms show ?thesis
    by (simp add: make_row_def Let_def merge_lookup_other [OF n] merge_lookup_other [OF p])
       (simp add: py_get_def)
qed

lemma make_row_azure_percentage:
  assumes "usage_percentage_azure mu ml pod_name = Inr v"
  shows "\<exists>r. make_row_azure v1 now timestamp namespace cpu mu ml pod_name = Inr r
           \<and> py_get r ''Memory Usage (%)'' = Some v"
proof -
  have p: "''Memory Usage (%)'' \<notin> set (map fst (get_latest_pod_event_azure v1 now pod_name namespace))"
    by (simp add: get_latest_pod_event_azure_keys pod_event_keys_def)
  have n: "''Memory Usage (%)'' \<notin> set (map fst (get_latest_event_details_node_azure v1 now
      (get_pod_node_name v1 pod_name namespace)))"
    by (simp add: get_latest_event_details_node_azure_keys node_event_keys_def)
  from assms show ?thesis
    by (simp add: make_row_azure_def Let_def merge_lookup_other [OF n] merge_lookup_other [OF p])
       (simp add: py_get_def)
qed

lemma usage_percentage_absent_usage:
  assumes "py_get ml pod = Some limit" "float_gt_zero limit" "py_get mu pod = None"
  shows "usage_percentage mu ml pod = Inr (PFloat (Finite False 0 0))"
proof -
  have "get_or_zero mu pod = Finite False 0 0"
    using assms(3) by (simp add: get_or_zero_def float_of_int_0)
  with usage_percentage_positive [OF assms(1,2), of mu] show ?thesis
    by (simp add: zero_div_positive [OF assms(2)] zero_times_100)
qed

lemma emit_rows_total:
  "(\<And>p. \<exists>r. row p = Inr r) \<Longrightarrow> \<exists>rows. emit_rows row pods = Inr rows"
proof (induction pods)
  case Nil
  then show ?case by simp
next
  case (Cons p pods)
  from Cons obtain rows where "emit_rows row pods = Inr rows" by blast
  moreover from Cons.prems obtain r where "row p = Inr r" by blast
  ultimately show ?case by simp
qed

lemma emit_rows_member:
  "emit_rows row pods = Inr rows \<Longrightarrow> p \<in> set pods \<Longrightarrow> \<not> should_exclude_pod p \<Longrightarrow>
   row p = Inr r \<Longrightarrow> r \<in> set rows"
  by (induction pods arbitrary: rows) (auto split: if_splits sum.splits)

lemma limit_key_is_candidate:
  "py_get ml pod = Some limit \<Longrightarrow> pod \<in> set (candidate_pods mu ml)"
  by (auto simp: py_get_def candidate_pods_def dest: map_of_SomeD intro: image_eqI [where x = "(pod, limit)"])

lemma emitted_row_of_pod:
  assumes e: "emit_rows row pods = Inr rows"
    and p: "pod \<in> set pods" "\<not> should_exclude_pod pod"
    and r: "row pod = Inr r0" "py_get r0 ''Memory Usage (%)'' = Some v"
    and name: "\<And>q r. row q = Inr r \<Longrightarrow> py_get r ''Pod Name'' = Some (PStr q)"
  shows "(\<exists>r \<in> set rows. py_get r ''Pod Name'' = Some (PStr pod)
            \<and> py_get r ''Memory Usage (%)'' = Some v)
       \<and> (\<forall>r \<in> set rows. py_get r ''Pod Name'' = Some (PStr pod) \<longrightarrow>
            py_get r ''Memory Usage (%)'' = Some v)"
proof -
  have "r0 \<in> set rows" using emit_rows_member [OF e p r(1)] .
  moreover have "py_get r0 ''Pod Name'' = Some (PStr pod)" using name [OF r(1)] .
  moreover have "py_get r ''Memory Usage (%)'' = Some v"
    if "r \<in> set rows" "py_get r ''Pod Name'' = Some (PStr pod)" for r
  proof -
    from emit_rows_origin [OF e that(1)] obtain q where q: "row q = Inr r" by blast
    from name [OF q] that(2) have "q = pod" by simp
    with q r show ?thesis by simp
  qed
  ultimately show ?thesis using r(2) by blast
qed

lemma cart_pod_kept: "\<not> should_exclude_pod ''cart-5d''"
  by code_simp

lemma fetch_limit_only:
  "fetch_metrics limit_only_backend = Inr (memory_metrics [] [(''cart-5d'', float_of_int 128)])"
  by (simp add: fetch_metrics_def raise_or_def query_prometheus_def limit_only_backend_def
      result_dict_def dict_of_def memory_metrics_def NAMESPACE_def cpu_usage_query_def
      memory_usage_query_def memory_limit_query_def network_traffic_query_def
      network_rate_query_def quoted_def)

lemma limit_only_monitor_queries:
  "query_prometheus_azure limit_only_monitor n (cpu_usage_query ''otel-demo'') = Inr []"
  "query_prometheus_azure limit_only_monitor n (memory_usage_query ''otel-demo'') = Inr []"
  "query_prometheus_azure limit_only_monitor n (memory_limit_query ''otel-demo'')
     = Inr [(''cart-5d'', float_of_int 128)]"
  by (simp_all add: query_prometheus_azure_def limit_only_monitor_def result_dict_def dict_of_def
      cpu_usage_query_def memory_usage_query_def memory_limit_query_def quoted_def)

lemma float_128_positive: "float_gt_zero (float_of_int 128)"
  by (simp add: float_eval float_gt_zero_def)

text \<open>
  Claim C9. For an entity that is not excluded, has a limit greater than 0 in the limit
  mapping and no sample in the usage mapping, a cycle whose pod listing and metric
  queries return emits a row for the entity, and the usage percentage of every row of
  that entity is the number 0.0: neither the marker \<^verbatim>\<open>'N/A'\<close> nor an absence
  placeholder. Both scripts.
\<close>

theorem absent_usage_gives_zero:
  assumes "float_gt_zero limit" and "\<not> should_exclude_pod pod"
  shows "(\<forall>pods m. list_namespaced_pod v1 NAMESPACE = Inr pods \<and> fetch_metrics http_get = Inr m
            \<and> py_get (memory_limit m) pod = Some limit \<and> py_get (memory_usage m) pod = None \<longrightarrow>
          (\<exists>rows. collect_cycle v1 http_get now timestamp = Inr rows
             \<and> (\<exists>r \<in> set rows. py_get r ''Pod Name'' = Some (PStr pod)
                   \<and> py_get r ''Memory Usage (%)'' = Some (PFloat (Finite False 0 0)))
             \<and> (\<forall>r \<in> set rows. py_get r ''Pod Name'' = Some (PStr pod) \<longrightarrow>
                   py_get r ''Memory Usage (%)'' = Some (PFloat (Finite False 0 0)))))
    \<and> (\<forall>pods cpu mem_usage mem_limit.
          list_namespaced_pod v1 namespace = Inr pods
            \<and> query_prometheus_azure backend n (cpu_usage_query namespace) = Inr cpu
            \<and> query_prometheus_azure backend (n + 1) (memory_usage_query namespace) = Inr mem_usage
            \<and> query_prometheus_azure backend (n + 2) (memory_limit_query namespace) = Inr mem_limit
            \<and> py_get mem_limit pod = Some limit \<and> py_get mem_usage pod = None \<longrightarrow>
          (\<exists>rows. collect_pod_metrics v1 backend n now timestamp namespace = Inr rows
             \<and> (\<exists>r \<in> set rows. py_get r ''Pod Name'' = Some (PStr pod)
                   \<and> py_get r ''Memory Usage (%)'' = Some (PFloat (Finite False 0 0)))
             \<and> (\<forall>r \<in> set rows. py_get r ''Pod Name'' = Some (PStr pod) \<longrightarrow>
                   py_get r ''Memory Usage (%)'' = Some (PFloat (Finite False 0 0)))))"
proof -
  have a: "\<exists>rows. collect_cycle v1 http_get now timestamp = Inr rows
             \<and> (\<exists>r \<in> set rows. py_get r ''Pod Name'' = Some (PStr pod)
                   \<and> py_get r ''Memory Usage (%)'' = Some (PFloat (Finite False 0 0)))
             \<and> (\<forall>r \<in> set rows. py_get r ''Pod Name'' = Some (PStr pod) \<longrightarrow>
                   py_get r ''Memory Usage (%)'' = Some (PFloat (Finite False 0 0)))"
    if h: "list_namespaced_pod v1 NAMESPACE = Inr pods" "fetch_metrics http_get = Inr m"
      "py_get (memory_limit m) pod = Some limit" "py_get (memory_usage m) pod = None" for pods m
  proof -
    obtain rows where rows:
      "emit_rows (make_row v1 now timestamp m) (candidate_pods (memory_usage m) (memory_limit m)) = Inr rows"
      using emit_rows_total [of "make_row v1 now timestamp m"] make_row_total by blast
    then have c: "collect_cycle v1 http_get now timestamp = Inr rows"
      using h(1,2) by (simp add: collect_cycle_def raise_or_def)
    have "usage_percentage (memory_usage m) (memory_limit m) pod = Inr (PFloat (Finite False 0 0))"
      using usage_percentage_absent_usage [OF h(3) assms(1) h(4)] .
    from make_row_percentage [OF this] obtain r0 where
      r0: "make_row v1 now timestamp m pod = Inr r0"
          "py_get r0 ''Memory Usage (%)'' = Some (PFloat (Finite False 0 0))" by blast
    have nm: "py_get r ''Pod Name'' = Some (PStr q)"
      if "make_row v1 now timestamp m q = Inr r" for q r
      using that by (rule make_row_pod_name)
    from emitted_row_of_pod [OF rows limit_key_is_candidate [OF h(3)] assms(2) r0 nm] c
    show ?thesis by blast
  qed
  have b: "\<exists>rows. collect_pod_metrics v1 backend n now timestamp namespace = Inr rows
             \<and> (\<exists>r \<in> set rows. py_get r ''Pod Name'' = Some (PStr pod)
                   \<and> py_get r ''Memory Usage (%)'' = Some (PFloat (Finite False 0 0)))
             \<and> (\<forall>r \<in> set rows. py_get r ''Pod Name'' = Some (PStr pod) \<longrightarrow>
                   py_get r ''Memory Usage (%)'' = Some (PFloat (Finite False 0 0)))"
    if h: "list_namespaced_pod v1 namespace = Inr pods"
      "query_prometheus_azure backend n (cpu_usage_query namespace) = Inr cpu"
      "query_prometheus_azure backend (n + 1) (memory_usage_query namespace) = Inr mem_usage"
      "query_prometheus_azure backend (n + 2) (memory_limit_query namespace) = Inr mem_limit"
      "py_get mem_limit pod = Some limit" "py_get mem_usage pod = None" for pods cpu mem_usage mem_limit
  proof -
    obtain rows where rows:
      "emit_rows (make_row_azure v1 now timestamp namespace cpu mem_usage mem_limit)
         (candidate_pods mem_usage mem_limit) = Inr rows"
      using emit_rows_total [of "make_row_azure v1 now timestamp namespace cpu mem_usage mem_limit"]
        make_row_azure_total by blast
    then have c: "collect_pod_metrics v1 backend n now timestamp namespace = Inr rows"
      using h(1-4) by (simp add: collect_pod_metrics_def raise_or_def)
    have "usage_percentage_azure mem_usage mem_limit pod = Inr (PFloat (Finite False 0 0))"
      using usage_percentage_absent_usage [OF h(5) assms(1) h(6)] by (simp add: usage_percentage_azure_eq)
    from make_row_azure_percentage [OF this] obtain r0 where
      r0: "make_row_azure v1 now timestamp namespace cpu mem_usage mem_limit pod = Inr r0"
          "py_get r0 ''Memory Usage (%)'' = Some (PFloat (Finite False 0 0))" by blast
    have nm: "py_get r ''Pod Name'' = Some (PStr q)"
      if "make_row_azure v1 now timestamp namespace cpu mem_usage mem_limit q = Inr r" for q r
      using that by (rule make_row_azure_pod_name)
    from emitted_row_of_pod [OF rows limit_key_is_candidate [OF h(5)] assms(2) r0 nm] c
    show ?thesis by blast
  qed
  from a b show ?thesis by blast
qed

theorem absent_usage_gives_zero_witness:
  "(\<exists>r. collect_cycle (cluster_of pod_running []) limit_only_backend 0 ''2024-01-01 00:00:00'' = Inr [r]
        \<and> py_get r ''Pod Name'' = Some (PStr ''cart-5d'')
        \<and> py_get r ''Memory Usage (%)'' = Some (PFloat (Finite False 0 0)))
   \<and> (\<exists>r. collect_pod_metrics (cluster_of pod_running []) limit_only_monitor 0 0
          ''2024-01-01 00:00:00'' ''otel-demo'' = Inr [r]
        \<and> py_get r ''Pod Name'' = Some (PStr ''cart-5d'')
        \<and> py_get r ''Memory Usage (%)'' = Some (PFloat (Finite False 0 0)))"
proof -
  let ?v1 = "cluster_of pod_running []"
  let ?m = "memory_metrics [] [(''cart-5d'', float_of_int 128)]"
  note inst = absent_usage_gives_zero [OF float_128_positive cart_pod_kept,
      of ?v1 limit_only_backend 0 "''2024-01-01 00:00:00''" "''otel-demo''" limit_only_monitor 0]
  obtain r where r: "make_row ?v1 0 ''2024-01-01 00:00:00'' ?m ''cart-5d'' = Inr r"
    using make_row_total by blast
  have c: "collect_cycle ?v1 limit_only_backend 0 ''2024-01-01 00:00:00'' = Inr [r]"
    using r cart_pod_kept
    by (simp add: collect_cycle_def raise_or_def fetch_limit_only cluster_of_def candidate_pods_def
        memory_metrics_def)
  have n: "py_get r ''Pod Name'' = Some (PStr ''cart-5d'')"
    using r by (rule make_row_pod_name)
  have "list_namespaced_pod ?v1 NAMESPACE = Inr [(''checkout-7f'', Some ''Running'')]"
    by (simp add: cluster_of_def pod_running_def)
  with inst fetch_limit_only c n
  have 1: "py_get r ''Memory Usage (%)'' = Some (PFloat (Finite False 0 0))"
    by (auto simp: py_get_def memory_metrics_def)
  obtain r' where r': "make_row_azure ?v1 0 ''2024-01-01 00:00:00'' ''otel-demo'' [] []
      [(''cart-5d'', float_of_int 128)] ''cart-5d'' = Inr r'"
    using make_row_azure_total by blast
  have c': "collect_pod_metrics ?v1 limit_only_monitor 0 0 ''2024-01-01 00:00:00'' ''otel-demo'' = Inr [r']"
    using r' cart_pod_kept
    by (simp add: collect_pod_metrics_def raise_or_def limit_only_monitor_queries cluster_of_def
        candidate_pods_def)
  have n': "py_get r' ''Pod Name'' = Some (PStr ''cart-5d'')"
    using r' by (rule make_row_azure_pod_name)
  have l': "list_namespaced_pod ?v1 ''otel-demo'' = Inr [(''checkout-7f'', Some ''Running'')]"
    by (simp add: cluster_of_def pod_running_def)
  have "\<exists>rows. collect_pod_metrics ?v1 limit_only_monitor 0 0 ''2024-01-01 00:00:00'' ''otel-demo'' = Inr rows
      \<and> (\<forall>r \<in> set rows. py_get r ''Pod Name'' = Some (PStr ''cart-5d'') \<longrightarrow>
            py_get r ''Memory Usage (%)'' = Some (PFloat (Finite False 0 0)))"
    using conjunct2 [OF inst] l'
    by (simp add: limit_only_monitor_queries) (auto simp: py_get_def)
  with c' n' have 2: "py_get r' ''Memory Usage (%)'' = Some (PFloat (Finite False 0 0))"
    by auto
  from c n 1 c' n' 2 show ?thesis by blast
qed

section \<open>Selection of the latest event\<close>

lemma sorted_reverse_valid:
  "\<forall>x \<in> set xs. key x \<noteq> None \<Longrightarrow> sorted_reverse key xs = Inr (sort_key (\<lambda>x. - the (key x)) xs)"
  by (simp add: sorted_reverse_def list_ex_iff)

lemma head_of_sort_key_least:
  assumes "sort_key f xs = l # rest"
  shows "l \<in> set xs \<and> (\<forall>e \<in> set xs. f l \<le> f e)"
proof -
  have s: "set (l # rest) = set xs" using assms set_sort [of f xs] by simp
  have "sorted (map f (l # rest))" using assms sorted_sort_key [of f xs] by simp
  then have "\<forall>e \<in> set (l # rest). f l \<le> f e" by auto
  with s show ?thesis by auto
qed

lemma latest_event_by_none:
  "\<forall>e \<in> set items. key e = None \<Longrightarrow> latest_event_by key items = Inr None"
  by (simp add: latest_event_by_def filter_empty_conv)

lemma latest_event_by_some:
  assumes "e0 \<in> set items" "key e0 \<noteq> None"
  shows "\<exists>l t. latest_event_by key items = Inr (Some l) \<and> l \<in> set items \<and> key l = Some t
           \<and> (\<forall>e \<in> set items. \<forall>u. key e = Some u \<longrightarrow> u \<le> t)"
proof -
  let ?valid = "filter (\<lambda>event. key event \<noteq> None) items"
  let ?f = "\<lambda>x. - the (key x)"
  have ne: "?valid \<noteq> []" using assms by (auto simp: filter_empty_conv)
  have sr: "sorted_reverse key ?valid = Inr (sort_key ?f ?valid)"
    by (rule sorted_reverse_valid) simp
  have "sort_key ?f ?valid \<noteq> []"
    using ne by (metis length_sort length_0_conv)
  then obtain l rest where lr: "sort_key ?f ?valid = l # rest"
    by (cases "sort_key ?f ?valid") auto
  from head_of_sort_key_least [OF lr] have l: "l \<in> set ?valid" "\<forall>e \<in> set ?valid. ?f l \<le> ?f e"
    by blast+
  from l(1) obtain t where t: "key l = Some t" "l \<in> set items" by auto
  have "u \<le> t" if "e \<in> set items" "key e = Some u" for e u
  proof -
    from that have "e \<in> set ?valid" by simp
    with l(2) have "?f l \<le> ?f e" by blast
    with t that show ?thesis by simp
  qed
  moreover have "latest_event_by key items = Inr (Some l)"
    using ne sr lr by (simp add: latest_event_by_def first_item_def)
  ultimately show ?thesis using t by blast
qed

lemma pod_event_body_raises:
  "list_namespaced_event v1 namespace (pod_field_selector pod_name) = Inl e \<Longrightarrow>
   pod_event_body v1 now pod_name namespace nothing = Inl e"
  by (simp add: pod_event_body_def)

lemma pod_event_body_nothing:
  "list_namespaced_event v1 namespace (pod_field_selector pod_name) = Inr items \<Longrightarrow>
   \<forall>e \<in> set items. last_timestamp e = None \<Longrightarrow>
   pod_event_body v1 now pod_name namespace nothing = Inr nothing"
  by (simp add: pod_event_body_def latest_event_by_none)

lemma pod_event_body_found:
  assumes "list_namespaced_event v1 namespace (pod_field_selector pod_name) = Inr items"
    and "e0 \<in> set items" "last_timestamp e0 \<noteq> None"
  shows "\<exists>l t. l \<in> set items \<and> last_timestamp l = Some t
           \<and> (\<forall>e \<in> set items. \<forall>u. last_timestamp e = Some u \<longrightarrow> u \<le> t)
           \<and> pod_event_body v1 now pod_name namespace nothing = Inr (pod_event_found now l t)"
proof -
  from latest_event_by_some [where key = last_timestamp, OF assms(2,3)] obtain l t where
    l: "latest_event_by last_timestamp items = Inr (Some l)" "l \<in> set items" "last_timestamp l = Some t"
       "\<forall>e \<in> set items. \<forall>u. last_timestamp e = Some u \<longrightarrow> u \<le> t"
    by blast
  have "pod_event_body v1 now pod_name namespace nothing = Inr (pod_event_found now l t)"
    using assms(1) l(1,3) by (simp add: pod_event_body_def event_age_def pod_event_found_def)
  with l show ?thesis by blast
qed

lemma node_event_body_raises:
  "list_event_for_all_namespaces v1 (node_field_selector node_name) = Inl e \<Longrightarrow>
   node_event_body v1 now node_name nothing = Inl e"
  by (simp add: node_event_body_def)

lemma node_event_body_nothing:
  "list_event_for_all_namespaces v1 (node_field_selector node_name) = Inr items \<Longrightarrow>
   \<forall>e \<in> set items. get_event_timestamp e = None \<Longrightarrow>
   node_event_body v1 now node_name nothing = Inr nothing"
  by (simp add: node_event_body_def latest_event_by_none)

lemma node_event_body_found:
  assumes "list_event_for_all_namespaces v1 (node_field_selector node_name) = Inr items"
    and "e0 \<in> set items" "get_event_timestamp e0 \<noteq> None"
  shows "\<exists>l t. l \<in> set items \<and> get_event_timestamp l = Some t
           \<and> (\<forall>e \<in> set items. \<forall>u. get_event_timestamp e = Some u \<longrightarrow> u \<le> t)
           \<and> node_event_body v1 now node_name nothing = Inr (node_event_found node_name now l t)"
proof -
  from latest_event_by_some [where key = get_event_timestamp, OF assms(2,3)] obtain l t where
    l: "latest_event_by get_event_timestamp items = Inr (Some l)" "l \<in> set items"
       "get_event_timestamp l = Some t"
       "\<forall>e \<in> set items. \<forall>u. get_event_timestamp e = Some u \<longrightarrow> u \<le> t"
    by blast
  have "node_event_body v1 now node_name nothing = Inr (node_event_found node_name now l t)"
    using assms(1) l(1,3) by (simp add: node_event_body_def event_age_def node_event_found_def)
  with l show ?thesis by blast
qed

lemma get_event_timestamp_None:
  "get_event_timestamp e = None \<longleftrightarrow>
     last_timestamp e = None \<and> event_time e = None \<and> first_timestamp e = None"
  by (simp add: get_event_timestamp_def split: option.splits)

lemma all_fields_pod_map: "all_fields pod_event_keys v = map (\<lambda>k. (k, PStr v)) pod_event_keys"
  by (simp add: all_fields_pod) (simp add: pod_event_keys_def)

lemma all_fields_node_map: "all_fields node_event_keys v = map (\<lambda>k. (k, PStr v)) node_event_keys"
  by (simp add: all_fields_node) (simp add: node_event_keys_def)

text \<open>
  Claim C2, as stated, fails for the pod-level correlator: an event that carries only
  the event-time field has a resolvable timestamp, yet the pod-level correlator of either
  script discards it, and it prefers an older event that has a last-observed timestamp.
\<close>

theorem pod_correlator_ignores_event_time:
  "get_event_timestamp event_backoff = Some 20000000
   \<and> get_latest_pod_event (cluster_of pod_running [event_backoff]) 30000000 ''checkout-7f'' ''otel-demo''
     = [(''Pod Event Type'', PStr ''No recent events''), (''Pod Event Reason'', PStr ''N/A''),
        (''Pod Event Age'', PStr ''N/A''), (''Pod Event Source'', PStr ''N/A''),
        (''Pod Event Message'', PStr ''N/A'')]
   \<and> get_latest_pod_event_azure (cluster_of pod_running [event_backoff]) 30000000 ''checkout-7f'' ''otel-demo''
     = map (\<lambda>k. (k, PStr ''N/A'')) pod_event_keys
   \<and> py_get (get_latest_pod_event (cluster_of pod_running [event_pulled, event_backoff]) 30000000
        ''checkout-7f'' ''otel-demo'') ''Pod Event Reason'' = Some (PStr ''Pulled'')"
  by (simp add: get_event_timestamp_def event_backoff_def event_pulled_def cluster_of_def
      get_latest_pod_event_def get_latest_pod_event_azure_def pod_event_body_def
      latest_event_by_def sorted_reverse_def first_item_def event_age_def all_fields_pod_map
      py_get_def py_opt_def)

text \<open>
  Claim C2, amended. The resolved timestamp of an event is the first non-absent value
  among the last-observed timestamp, the event-time field and the first-observed
  timestamp, in this order. The node-level correlator discards an event only if all
  three are absent and reports an event whose resolved timestamp is the maximum. The
  pod-level correlator looks at the last-observed timestamp alone: it discards an event
  exactly when that timestamp is absent and reports an event whose last-observed
  timestamp is the maximum. Both scripts.
\<close>

theorem timestamp_resolution_per_correlator:
  "(\<forall>t. last_timestamp e = Some t \<longrightarrow> get_event_timestamp e = Some t)
   \<and> (\<forall>t. last_timestamp e = None \<and> event_time e = Some t \<longrightarrow> get_event_timestamp e = Some t)
   \<and> (last_timestamp e = None \<and> event_time e = None \<longrightarrow> get_event_timestamp e = first_timestamp e)
   \<and> (list_event_for_all_namespaces v1 (node_field_selector node_name) = Inr items \<longrightarrow>
        (if \<forall>ev \<in> set items. last_timestamp ev = None \<and> event_time ev = None \<and> first_timestamp ev = None
         then node_event_body v1 now node_name nothing = Inr nothing
         else \<exists>l t. l \<in> set items \<and> get_event_timestamp l = Some t
                \<and> (\<forall>ev \<in> set items. \<forall>u. get_event_timestamp ev = Some u \<longrightarrow> u \<le> t)
                \<and> node_event_body v1 now node_name nothing = Inr (node_event_found node_name now l t)))
   \<and> (list_namespaced_event v1 namespace (pod_field_selector pod_name) = Inr pod_items \<longrightarrow>
        (if \<forall>ev \<in> set pod_items. last_timestamp ev = None
         then pod_event_body v1 now pod_name namespace nothing = Inr nothing
         else \<exists>l t. l \<in> set pod_items \<and> last_timestamp l = Some t
                \<and> (\<forall>ev \<in> set pod_items. \<forall>u. last_timestamp ev = Some u \<longrightarrow> u \<le> t)
                \<and> pod_event_body v1 now pod_name namespace nothing = Inr (pod_event_found now l t)))"
proof -
  have a: "(\<forall>t. last_timestamp e = Some t \<longrightarrow> get_event_timestamp e = Some t)
   \<and> (\<forall>t. last_timestamp e = None \<and> event_time e = Some t \<longrightarrow> get_event_timestamp e = Some t)
   \<and> (last_timestamp e = None \<and> event_time e = None \<longrightarrow> get_event_timestamp e = first_timestamp e)"
    by (simp add: get_event_timestamp_def)
  have b: "if \<forall>ev \<in> set items. last_timestamp ev = None \<and> event_time ev = None \<and> first_timestamp ev = None
         then node_event_body v1 now node_name nothing = Inr nothing
         else \<exists>l t. l \<in> set items \<and> get_event_timestamp l = Some t
                \<and> (\<forall>ev \<in> set items. \<forall>u. get_event_timestamp ev = Some u \<longrightarrow> u \<le> t)
                \<and> node_event_body v1 now node_name nothing = Inr (node_event_found node_name now l t)"
    if h: "list_event_for_all_namespaces v1 (node_field_selector node_name) = Inr items"
  proof (cases "\<forall>ev \<in> set items. get_event_timestamp ev = None")
    case True
    then have t: "\<forall>ev \<in> set items. last_timestamp ev = None \<and> event_time ev = None \<and> first_timestamp ev = None"
      by (simp add: get_event_timestamp_None)
    show ?thesis
      by (subst if_P [OF t]) (rule node_event_body_nothing [OF h True])
  next
    case False
    then have f: "\<not> (\<forall>ev \<in> set items. last_timestamp ev = None \<and> event_time ev = None \<and> first_timestamp ev = None)"
      by (simp add: get_event_timestamp_None)
    from False obtain e0 where e0: "e0 \<in> set items" "get_event_timestamp e0 \<noteq> None" by blast
    show ?thesis
      by (subst if_not_P [OF f]) (rule node_event_body_found [OF h e0])
  qed
  have c: "if \<forall>ev \<in> set pod_items. last_timestamp ev = None
         then pod_event_body v1 now pod_name namespace nothing = Inr nothing
         else \<exists>l t. l \<in> set pod_items \<and> last_timestamp l = Some t
                \<and> (\<forall>ev \<in> set pod_items. \<forall>u. last_timestamp ev = Some u \<longrightarrow> u \<le> t)
                \<and> pod_event_body v1 now pod_name namespace nothing = Inr (pod_event_found now l t)"
    if h: "list_namespaced_event v1 namespace (pod_field_selector pod_name) = Inr pod_items"
  proof (cases "\<forall>ev \<in> set pod_items. last_timestamp ev = None")
    case True
    show ?thesis
      by (subst if_P [OF True]) (rule pod_event_body_nothing [OF h True])
  next
    case False
    then obtain e0 where e0: "e0 \<in> set pod_items" "last_timestamp e0 \<noteq> None" by blast
    show ?thesis
      by (subst if_not_P [OF False]) (rule pod_event_body_found [OF h e0])
  qed
  from a b c show ?thesis by blast
qed

theorem timestamp_resolution_per_correlator_witness:
  "node_event_body (cluster_of pod_running [event_pulled, event_backoff]) 30000000 (Some ''node-a'') []
     = Inr (node_event_found (Some ''node-a'') 30000000 event_backoff 20000000)
   \<and> pod_event_body (cluster_of pod_running [event_pulled, event_backoff]) 30000000
        ''checkout-7f'' ''otel-demo'' []
     = Inr (pod_event_found 30000000 event_pulled 10000000)"
  using timestamp_resolution_per_correlator [where e = event_backoff
      and ?v1.0 = "cluster_of pod_running [event_pulled, event_backoff]"
      and node_name = "Some ''node-a''" and items = "[event_pulled, event_backoff]"
      and now = 30000000 and nothing = "[]" and namespace = "''otel-demo''"
      and pod_name = "''checkout-7f''" and pod_items = "[event_pulled, event_backoff]"]
  by (auto simp: cluster_of_def event_pulled_def event_backoff_def get_event_timestamp_def)

text \<open>
  Claim C1, as stated, fails in the static-config script: with no event found its pod
  summary holds \<^verbatim>\<open>'No recent events'\<close> in the type field, not \<^verbatim>\<open>'N/A'\<close>; with the
  lookup raising that field holds \<^verbatim>\<open>'Error'\<close>; and its node summary holds
  \<^verbatim>\<open>'No recent events'\<close> in the reason field and the node name in the name field.
\<close>

theorem static_summaries_mix_placeholders:
  "get_latest_pod_event (cluster_of pod_running []) 0 ''checkout-7f'' ''otel-demo''
     \<noteq> map (\<lambda>k. (k, PStr ''N/A'')) pod_event_keys
   \<and> py_get (get_latest_pod_event (cluster_of pod_running []) 0 ''checkout-7f'' ''otel-demo'')
        ''Pod Event Type'' = Some (PStr ''No recent events'')
   \<and> py_get (get_latest_pod_event cluster_down 0 ''checkout-7f'' ''otel-demo'')
        ''Pod Event Type'' = Some (PStr ''Error'')
   \<and> py_get (get_latest_event_details_node (cluster_of pod_running []) 0 (Some ''node-a''))
        ''Event Reason'' = Some (PStr ''No recent events'')
   \<and> py_get (get_latest_event_details_node cluster_down 0 (Some ''node-a''))
        ''Node Name'' = Some (PStr ''node-a'')"
  by (simp add: get_latest_pod_event_def get_latest_event_details_node_def pod_event_body_def
      node_event_body_def latest_event_by_def cluster_of_def cluster_down_def pod_event_keys_def
      py_get_def py_opt_def)

text \<open>
  Claim C1, amended. Every summary of the pod-level and node-level correlators falls
  in exactly one of three classes, by what the lookup did. The lookup raised: every
  field holds \<^verbatim>\<open>'Unknown'\<close>, except that in the static-config script the pod summary's
  type field holds \<^verbatim>\<open>'Error'\<close> and the node summary's name field holds the node name.
  The lookup returned and no event with a timestamp is left (for the pod-level
  correlator: a last-observed timestamp): every field holds \<^verbatim>\<open>'N/A'\<close>, except that in
  the static-config script the pod summary's type field and the node summary's reason
  field hold \<^verbatim>\<open>'No recent events'\<close> and the node summary's name field holds the node
  name. The lookup returned and such an event is left: every field holds the value of
  the selected event (the name field of the node summary the node name).
\<close>

theorem event_summary_outcome_classes:
  "(\<forall>e. list_namespaced_event v1 namespace (pod_field_selector pod_name) = Inl e \<longrightarrow>
      get_latest_pod_event v1 now pod_name namespace =
        [(''Pod Event Type'', PStr ''Error''), (''Pod Event Reason'', PStr ''Unknown''),
         (''Pod Event Age'', PStr ''Unknown''), (''Pod Event Source'', PStr ''Unknown''),
         (''Pod Event Message'', PStr ''Unknown'')]
      \<and> get_latest_pod_event_azure v1 now pod_name namespace =
        map (\<lambda>k. (k, PStr ''Unknown'')) pod_event_keys)
   \<and> (\<forall>items. list_namespaced_event v1 namespace (pod_field_selector pod_name) = Inr items
        \<and> (\<forall>ev \<in> set items. last_timestamp ev = None) \<longrightarrow>
      get_latest_pod_event v1 now pod_name namespace =
        [(''Pod Event Type'', PStr ''No recent events''), (''Pod Event Reason'', PStr ''N/A''),
         (''Pod Event Age'', PStr ''N/A''), (''Pod Event Source'', PStr ''N/A''),
         (''Pod Event Message'', PStr ''N/A'')]
      \<and> get_latest_pod_event_azure v1 now pod_name namespace =
        map (\<lambda>k. (k, PStr ''N/A'')) pod_event_keys)
   \<and> (\<forall>items. list_namespaced_event v1 namespace (pod_field_selector pod_name) = Inr items
        \<and> (\<exists>ev \<in> set items. last_timestamp ev \<noteq> None) \<longrightarrow>
      (\<exists>l t. l \<in> set items \<and> last_timestamp l = Some t
         \<and> get_latest_pod_event v1 now pod_name namespace = pod_event_found now l t
         \<and> get_latest_pod_event_azure v1 now pod_name namespace = pod_event_found now l t))
   \<and> (\<forall>e. list_event_for_all_namespaces v1 (node_field_selector node_name) = Inl e \<longrightarrow>
      get_latest_event_details_node v1 now node_name =
        [(''Node Name'', py_opt node_name), (''Event Reason'', PStr ''Unknown''),
         (''Event Age'', PStr ''Unknown''), (''Event Source'', PStr ''Unknown''),
         (''Event Message'', PStr ''Unknown'')]
      \<and> get_latest_event_details_node_azure v1 now node_name =
        map (\<lambda>k. (k, PStr ''Unknown'')) node_event_keys)
   \<and> (\<forall>items. list_event_for_all_namespaces v1 (node_field_selector node_name) = Inr items
        \<and> (\<forall>ev \<in> set items. get_event_timestamp ev = None) \<longrightarrow>
      get_latest_event_details_node v1 now node_name =
        [(''Node Name'', py_opt node_name), (''Event Reason'', PStr ''No recent events''),
         (''Event Age'', PStr ''N/A''), (''Event Source'', PStr ''N/A''),
         (''Event Message'', PStr ''N/A'')]
      \<and> get_latest_event_details_node_azure v1 now node_name =
        map (\<lambda>k. (k, PStr ''N/A'')) node_event_keys)
   \<and> (\<forall>items. list_event_for_all_namespaces v1 (node_field_selector node_name) = Inr items
        \<and> (\<exists>ev \<in> set items. get_event_timestamp ev \<noteq> None) \<longrightarrow>
      (\<exists>l t. l \<in> set items \<and> get_event_timestamp l = Some t
         \<and> get_latest_event_details_node v1 now node_name = node_event_found node_name now l t
         \<and> get_latest_event_details_node_azure v1 now node_name = node_event_found node_name now l t))"
proof -
  have pr: "get_latest_pod_event v1 now pod_name namespace =
        [(''Pod Event Type'', PStr ''Error''), (''Pod Event Reason'', PStr ''Unknown''),
         (''Pod Event Age'', PStr ''Unknown''), (''Pod Event Source'', PStr ''Unknown''),
         (''Pod Event Message'', PStr ''Unknown'')]
      \<and> get_latest_pod_event_azure v1 now pod_name namespace =
        map (\<lambda>k. (k, PStr ''Unknown'')) pod_event_keys"
    if "list_namespaced_event v1 namespace (pod_field_selector pod_name) = Inl e" for e
    using pod_event_body_raises [OF that]
    by (simp add: get_latest_pod_event_def get_latest_pod_event_azure_def all_fields_pod_map)
  have pn: "get_latest_pod_event v1 now pod_name namespace =
        [(''Pod Event Type'', PStr ''No recent events''), (''Pod Event Reason'', PStr ''N/A''),
         (''Pod Event Age'', PStr ''N/A''), (''Pod Event Source'', PStr ''N/A''),
         (''Pod Event Message'', PStr ''N/A'')]
      \<and> get_latest_pod_event_azure v1 now pod_name namespace =
        map (\<lambda>k. (k, PStr ''N/A'')) pod_event_keys"
    if "list_namespaced_event v1 namespace (pod_field_selector pod_name) = Inr items"
      "\<forall>ev \<in> set items. last_timestamp ev = None" for items
    using pod_event_body_nothing [OF that]
    by (simp add: get_latest_pod_event_def get_latest_pod_event_azure_def all_fields_pod_map)
  have pf: "\<exists>l t. l \<in> set items \<and> last_timestamp l = Some t
         \<and> get_latest_pod_event v1 now pod_name namespace = pod_event_found now l t
         \<and> get_latest_pod_event_azure v1 now pod_name namespace = pod_event_found now l t"
    if h: "list_namespaced_event v1 namespace (pod_field_selector pod_name) = Inr items"
      and ex: "\<exists>ev \<in> set items. last_timestamp ev \<noteq> None" for items
  proof -
    from ex obtain e0 where e0: "e0 \<in> set items" "last_timestamp e0 \<noteq> None" by blast
    from latest_event_by_some [where key = last_timestamp, OF e0] obtain l t where
      l: "latest_event_by last_timestamp items = Inr (Some l)" "l \<in> set items" "last_timestamp l = Some t"
      by blast
    have "pod_event_body v1 now pod_name namespace nothing = Inr (pod_event_found now l t)" for nothing
      using h l(1,3) by (simp add: pod_event_body_def event_age_def pod_event_found_def)
    then have "get_latest_pod_event v1 now pod_name namespace = pod_event_found now l t
         \<and> get_latest_pod_event_azure v1 now pod_name namespace = pod_event_found now l t"
      by (simp add: get_latest_pod_event_def get_latest_pod_event_azure_def)
    with l show ?thesis by blast
  qed
  have nr: "get_latest_event_details_node v1 now node_name =
        [(''Node Name'', py_opt node_name), (''Event Reason'', PStr ''Unknown''),
         (''Event Age'', PStr ''Unknown''), (''Event Source'', PStr ''Unknown''),
         (''Event Message'', PStr ''Unknown'')]
      \<and> get_latest_event_details_node_azure v1 now node_name =
        map (\<lambda>k. (k, PStr ''Unknown'')) node_event_keys"
    if "list_event_for_all_namespaces v1 (node_field_selector node_name) = Inl e" for e
    using node_event_body_raises [OF that]
    by (simp add: get_latest_event_details_node_def get_latest_event_details_node_azure_def
        all_fields_node_map)
  have nn: "get_latest_event_details_node v1 now node_name =
        [(''Node Name'', py_opt node_name), (''Event Reason'', PStr ''No recent events''),
         (''Event Age'', PStr ''N/A''), (''Event Source'', PStr ''N/A''),
         (''Event Message'', PStr ''N/A'')]
      \<and> get_latest_event_details_node_azure v1 now node_name =
        map (\<lambda>k. (k, PStr ''N/A'')) node_event_keys"
    if "list_event_for_all_namespaces v1 (node_field_selector node_name) = Inr items"
      "\<forall>ev \<in> set items. get_event_timestamp ev = None" for items
    using node_event_body_nothing [OF that]
    by (simp add: get_latest_event_details_node_def get_latest_event_details_node_azure_def
        all_fields_node_map)
  have nf: "\<exists>l t. l \<in> set items \<and> get_event_timestamp l = Some t
         \<and> get_latest_event_details_node v1 now node_name = node_event_found node_name now l t
         \<and> get_latest_event_details_node_azure v1 now node_name = node_event_found node_name now l t"
    if h: "list_event_for_all_namespaces v1 (node_field_selector node_name) = Inr items"
      and ex: "\<exists>ev \<in> set items. get_event_timestamp ev \<noteq> None" for items
  proof -
    from ex obtain e0 where e0: "e0 \<in> set items" "get_event_timestamp e0 \<noteq> None" by blast
    from latest_event_by_some [where key = get_event_timestamp, OF e0] obtain l t where
      l: "latest_event_by get_event_timestamp items = Inr (Some l)" "l \<in> set items"
         "get_event_timestamp l = Some t"
      by blast
    have "node_event_body v1 now node_name nothing = Inr (node_event_found node_name now l t)" for nothing
      using h l(1,3) by (simp add: node_event_body_def event_age_def node_event_found_def)
    then have "get_latest_event_details_node v1 now node_name = node_event_found node_name now l t
         \<and> get_latest_event_details_node_azure v1 now node_name = node_event_found node_name now l t"
      by (simp add: get_latest_event_details_node_def get_latest_event_details_node_azure_def)
    with l show ?thesis by blast
  qed
  from pr pn pf nr nn nf show ?thesis by blast
qed


theorem event_summary_outcome_classes_witness:
  "get_latest_pod_event cluster_down 0 ''checkout-7f'' ''otel-demo'' =
     [(''Pod Event Type'', PStr ''Error''), (''Pod Event Reason'', PStr ''Unknown''),
      (''Pod Event Age'', PStr ''Unknown''), (''Pod Event Source'', PStr ''Unknown''),
      (''Pod Event Message'', PStr ''Unknown'')]
   \<and> get_latest_event_details_node_azure (cluster_of pod_running []) 0 (Some ''node-a'') =
     map (\<lambda>k. (k, PStr ''N/A'')) node_event_keys
   \<and> get_latest_pod_event_azure (cluster_of pod_running [event_pulled]) 30000000
        ''checkout-7f'' ''otel-demo'' = pod_event_found 30000000 event_pulled 10000000"
  using event_summary_outcome_classes [where ?v1.0 = cluster_down and now = 0
      and pod_name = "''checkout-7f''" and namespace = "''otel-demo''" and node_name = "Some ''node-a''"]
    event_summary_outcome_classes [where ?v1.0 = "cluster_of pod_running []" and now = 0
      and pod_name = "''checkout-7f''" and namespace = "''otel-demo''" and node_name = "Some ''node-a''"]
    event_summary_outcome_classes [where ?v1.0 = "cluster_of pod_running [event_pulled]"
      and now = 30000000
      and pod_name = "''checkout-7f''" and namespace = "''otel-demo''" and node_name = "Some ''node-a''"]
  by (auto simp: cluster_of_def cluster_down_def event_pulled_def)

section \<open>Properties of the append sink\<close>

lemma append_block_existing:
  "append_block dialect data (Some old) = Some (old @ csv_text dialect False data)"
  by (simp add: append_block_def to_csv_def write_text_def isfile_def)

lemma write_to_csv_existing:
  "write_to_csv dialect data (Some old) = Some (old @ csv_text dialect False data)"
  by (simp add: write_to_csv_def to_csv_def write_text_def isfile_def)

lemma csv_text_no_rows: "csv_text dialect False [] = []"
  by (simp add: csv_text_def)

text \<open>
  Claim C3, as stated, fails on a destination that does not exist yet: appending zero
  rows creates it and writes the header line of the empty frame, in both scripts.
\<close>

theorem zero_rows_create_the_destination:
  "append_block plain_csv [] None = Some [CHR 0x0A]
   \<and> write_to_csv plain_csv [] None = Some [CHR 0x0A]"
  by (simp add: append_block_def write_to_csv_def to_csv_def write_text_def csv_text_def
      isfile_def plain_csv_def frame_columns_def join_commas_def)

text \<open>
  Claim C3, amended. On an existing destination, appending zero rows leaves its size and
  content as they are, and every append, and every turn of the scheduler loop, only adds
  text after what the destination already holds. On a destination that does not exist
  yet, appending zero rows creates it with the header line alone. Both scripts.
\<close>

theorem append_sink_keeps_history:
  "(\<forall>old. dest = Some old \<longrightarrow>
       append_block dialect [] dest = Some old \<and> write_to_csv dialect [] dest = Some old)
   \<and> (\<forall>old. dest = Some old \<longrightarrow>
       (\<exists>suffix. append_block dialect data dest = Some (old @ suffix))
       \<and> (\<exists>suffix. write_to_csv dialect data dest = Some (old @ suffix))
       \<and> (\<exists>suffix. main_loop_turn dialect v1 http_get now timestamp dest = Some (old @ suffix))
       \<and> (\<exists>suffix. main_turn_azure dialect v1 backend n now timestamp namespace dest
             = Some (old @ suffix)))
   \<and> (dest = None \<longrightarrow>
       append_block dialect [] dest = Some (header_line dialect [])
       \<and> write_to_csv dialect [] dest = Some (header_line dialect []))"
proof -
  have a: "append_block dialect [] (Some old) = Some old \<and> write_to_csv dialect [] (Some old) = Some old" for old
    by (simp add: append_block_existing write_to_csv_existing csv_text_no_rows)
  have b: "\<exists>suffix. main_loop_turn dialect v1 http_get now timestamp (Some old) = Some (old @ suffix)" for old
    by (cases "collect_cycle v1 http_get now timestamp")
       (simp_all add: main_loop_turn_def append_block_existing)
  have c: "\<exists>suffix. main_turn_azure dialect v1 backend n now timestamp namespace (Some old)
             = Some (old @ suffix)" for old
    by (cases "collect_pod_metrics v1 backend n now timestamp namespace")
       (simp_all add: main_turn_azure_def write_to_csv_existing)
  have d: "append_block dialect [] None = Some (header_line dialect [])
       \<and> write_to_csv dialect [] None = Some (header_line dialect [])"
    by (simp add: append_block_def write_to_csv_def to_csv_def write_text_def csv_text_def
        isfile_def frame_columns_def)
  show ?thesis
    using a b c d by (auto simp: append_block_existing write_to_csv_existing)
qed

theorem append_sink_keeps_history_witness:
  "append_block plain_csv [] (Some stored_file) = Some stored_file
   \<and> write_to_csv plain_csv [] (Some stored_file) = Some stored_file
   \<and> write_to_csv plain_csv [[(''Pod Name'', PStr ''cart-5d'')]] (Some stored_file)
       = Some (stored_file @ ''cart-5d'' @ [CHR 0x0A])"
  using append_sink_keeps_history [where dest = "Some stored_file" and dialect = plain_csv
      and data = "[[(''Pod Name'', PStr ''cart-5d'')]]"]
  by (simp add: write_to_csv_existing csv_text_def frame_columns_def plain_csv_def
      join_commas_def plain_cell_def py_get_def)

section \<open>Properties of the credential failure\<close>

lemma token_failure_propagates:
  "get_access_token backend n = Inl e \<Longrightarrow> query_prometheus_azure backend n query = Inl e"
  by (simp add: query_prometheus_azure_def)

lemma collect_pod_metrics_token_failure:
  assumes "(\<exists>e. get_access_token backend n = Inl e) \<or> (\<exists>e. get_access_token backend (n + 1) = Inl e)
      \<or> (\<exists>e. get_access_token backend (n + 2) = Inl e)"
  shows "\<exists>e. collect_pod_metrics v1 backend n now timestamp namespace = Inl e"
proof (cases "list_namespaced_pod v1 namespace")
  case (Inl e)
  then show ?thesis by (simp add: collect_pod_metrics_def raise_or_def)
next
  case pods: (Inr current_pods)
  show ?thesis
  proof (cases "query_prometheus_azure backend n (cpu_usage_query namespace)")
    case (Inl e)
    with pods show ?thesis by (simp add: collect_pod_metrics_def raise_or_def)
  next
    case cpu: (Inr cpu)
    then have t0: "\<not> (\<exists>e. get_access_token backend n = Inl e)"
      using token_failure_propagates by fastforce
    show ?thesis
    proof (cases "query_prometheus_azure backend (n + 1) (memory_usage_query namespace)")
      case (Inl e)
      with pods cpu show ?thesis by (simp add: collect_pod_metrics_def raise_or_def)
    next
      case mu: (Inr mu)
      then have t1: "\<not> (\<exists>e. get_access_token backend (n + 1) = Inl e)"
        using token_failure_propagates by fastforce
      from assms t0 t1 obtain e where "get_access_token backend (n + 2) = Inl e" by blast
      then have "query_prometheus_azure backend (n + 2) (memory_limit_query namespace) = Inl e"
        by (rule token_failure_propagates)
      with pods cpu mu show ?thesis by (simp add: collect_pod_metrics_def raise_or_def)
    qed
  qed
qed

text \<open>
  Claim C4, as stated, fails: when the first token request of a cycle is refused while
  the later ones would succeed, \<^verbatim>\<open>collect_pod_metrics\<close> ends with that exception, no
  row is assembled and the turn of the loop writes nothing.
\<close>

theorem credential_failure_is_not_confined:
  "query_prometheus_azure (monitor_with (token_fails_at 0) [(Some ''checkout-7f'', float_of_int 50)]) 1
       (memory_usage_query ''otel-demo'') = Inr [(''checkout-7f'', float_of_int 50)]
   \<and> query_prometheus_azure (monitor_with (token_fails_at 0) [(Some ''checkout-7f'', float_of_int 50)]) 2
       (memory_limit_query ''otel-demo'') = Inr [(''checkout-7f'', float_of_int 50)]
   \<and> collect_pod_metrics (cluster_of pod_running []) (monitor_with (token_fails_at 0) [(Some ''checkout-7f'', float_of_int 50)])
       0 0 ''2024-01-01 00:00:00'' ''otel-demo''
     = Inl (Raised RequestException ''401 Client Error: Unauthorized'')
   \<and> main_turn_azure plain_csv (cluster_of pod_running [])
        (monitor_with (token_fails_at 0) [(Some ''checkout-7f'', float_of_int 50)])
        0 0 ''2024-01-01 00:00:00'' ''otel-demo'' None = None"
  by (simp add: main_turn_azure_def collect_pod_metrics_def raise_or_def query_prometheus_azure_def
      monitor_with_def token_fails_at_def cluster_of_def result_dict_def dict_of_def)

text \<open>
  Claim C4, amended. A failure of the credential provider surfaces as a hard error of
  the metric query that asked for the token, and it is not confined to that query: it
  leaves \<^verbatim>\<open>collect_pod_metrics\<close> as well, so whenever one of the three token requests of
  a cycle fails the cycle returns no rows; the scheduler loop catches the exception, and
  the destination is left as it was.
\<close>

theorem credential_failure_ends_the_cycle:
  "(\<forall>e. get_access_token backend n = Inl e \<longrightarrow> query_prometheus_azure backend n query = Inl e)
   \<and> (\<forall>e pods. list_namespaced_pod v1 namespace = Inr pods \<and> get_access_token backend n = Inl e \<longrightarrow>
         collect_pod_metrics v1 backend n now timestamp namespace = Inl e)
   \<and> ((\<exists>e. get_access_token backend n = Inl e) \<or> (\<exists>e. get_access_token backend (n + 1) = Inl e)
        \<or> (\<exists>e. get_access_token backend (n + 2) = Inl e) \<longrightarrow>
         (\<exists>e. collect_pod_metrics v1 backend n now timestamp namespace = Inl e)
         \<and> main_turn_azure dialect v1 backend n now timestamp namespace dest = dest)"
proof -
  have a: "collect_pod_metrics v1 backend n now timestamp namespace = Inl e"
    if "list_namespaced_pod v1 namespace = Inr pods" "get_access_token backend n = Inl e" for e pods
    using that token_failure_propagates [OF that(2)]
    by (simp add: collect_pod_metrics_def raise_or_def)
  have b: "(\<exists>e. collect_pod_metrics v1 backend n now timestamp namespace = Inl e)
         \<and> main_turn_azure dialect v1 backend n now timestamp namespace dest = dest"
    if "(\<exists>e. get_access_token backend n = Inl e) \<or> (\<exists>e. get_access_token backend (n + 1) = Inl e)
        \<or> (\<exists>e. get_access_token backend (n + 2) = Inl e)"
  proof -
    from collect_pod_metrics_token_failure [OF that] obtain e where
      "collect_pod_metrics v1 backend n now timestamp namespace = Inl e" by blast
    then show ?thesis by (simp add: main_turn_azure_def)
  qed
  show ?thesis using a b token_failure_propagates by blast
qed

theorem credential_failure_ends_the_cycle_witness:
  "collect_pod_metrics (cluster_of pod_running []) (monitor_with (token_fails_at 0) [(Some ''checkout-7f'', float_of_int 50)])
       0 0 ''2024-01-01 00:00:00'' ''otel-demo''
     = Inl (Raised RequestException ''401 Client Error: Unauthorized'')
   \<and> main_turn_azure plain_csv (cluster_of pod_running [])
        (monitor_with (token_fails_at 1) [(Some ''checkout-7f'', float_of_int 50)])
        0 0 ''2024-01-01 00:00:00'' ''otel-demo'' (Some stored_file) = Some stored_file"
  using credential_failure_ends_the_cycle [where backend = "monitor_with (token_fails_at 0) [(Some ''checkout-7f'', float_of_int 50)]"
      and n = 0 and ?v1.0 = "cluster_of pod_running []" and namespace = "''otel-demo''"
      and now = 0 and timestamp = "''2024-01-01 00:00:00''"]
    credential_failure_ends_the_cycle [where backend = "monitor_with (token_fails_at 1) [(Some ''checkout-7f'', float_of_int 50)]"
      and n = 0 and ?v1.0 = "cluster_of pod_running []" and namespace = "''otel-demo''"
      and now = 0 and timestamp = "''2024-01-01 00:00:00''" and dialect = plain_csv
      and dest = "Some stored_file"]
  by (simp add: monitor_with_def token_fails_at_def cluster_of_def)

end
